theory Spec2Isabelle
  imports Complex_Main "HOL-Library.Monad_Syntax"
begin

section \<open>JavaScript values used by the weather dashboard\<close>

text \<open>
  A JavaScript number is either a finite value or one of the three non-finite values.
  Finite values are modelled by the rational they denote (negative zero is identified
  with zero, as \<open>===\<close> does).
\<close>

datatype jsnum = Fin rat | NaN | PosInf | NegInf

text \<open>\<open>Number.isNaN\<close>.\<close>

fun isNaN :: "jsnum \<Rightarrow> bool" where
  "isNaN NaN = True"
| "isNaN _ = False"

text \<open>\<open>Math.round\<close>: the nearest integer, ties towards plus infinity.\<close>

fun Math_round :: "jsnum \<Rightarrow> jsnum" where
  "Math_round (Fin r) = Fin (of_int \<lfloor>r + 1 / 2\<rfloor>)"
| "Math_round n = n"

text \<open>Truthiness of a number: zero and not-a-number are falsy.\<close>

fun truthy_num :: "jsnum \<Rightarrow> bool" where
  "truthy_num (Fin r) = (r \<noteq> 0)"
| "truthy_num NaN = False"
| "truthy_num _ = True"

text \<open>The relation \<open><\<close> on numbers; every comparison with not-a-number is false.\<close>

fun num_less :: "jsnum \<Rightarrow> jsnum \<Rightarrow> bool" where
  "num_less NaN _ = False"
| "num_less _ NaN = False"
| "num_less (Fin a) (Fin b) = (a < b)"
| "num_less (Fin a) PosInf = True"
| "num_less NegInf (Fin b) = True"
| "num_less NegInf PosInf = True"
| "num_less _ _ = False"

text \<open>
  Values of unknown static type are modelled by a datatype of JavaScript values. An object
  is the list of its own properties in insertion order.
\<close>

datatype jsval =
    Undefined
  | Null
  | Bool bool
  | Num jsnum
  | Str string
  | Arr "jsval list"
  | Obj "(string \<times> jsval) list"

fun truthy :: "jsval \<Rightarrow> bool" where
  "truthy Undefined = False"
| "truthy Null = False"
| "truthy (Bool b) = b"
| "truthy (Num n) = truthy_num n"
| "truthy (Str s) = (s \<noteq> [])"
| "truthy (Arr _) = True"
| "truthy (Obj _) = True"

text \<open>
  Property read \<open>v.k\<close>; a missing property reads as \<open>undefined\<close>. Where a name occurs
  twice (a JSON text may repeat a name), the last value counts.
\<close>

fun get :: "jsval \<Rightarrow> string \<Rightarrow> jsval" where
  "get (Obj ps) k = (case map_of (rev ps) k of None \<Rightarrow> Undefined | Some v \<Rightarrow> v)"
| "get _ k = Undefined"

subsection \<open>Strings\<close>

text \<open>
  Strings are sequences of ASCII characters. \<open>trim\<close> removes white space from both ends,
  \<open>toLowerCase\<close> maps the letters A to Z to a to z, and \<open>str_includes s t\<close> holds when \<open>t\<close>
  occurs in \<open>s\<close> as a contiguous substring.
\<close>

definition is_space :: "char \<Rightarrow> bool" where
  "is_space c = (of_char c \<in> {9, 10, 11, 12, 13, 32 :: nat})"

definition trim :: "string \<Rightarrow> string" where
  "trim s = rev (dropWhile is_space (rev (dropWhile is_space s)))"

definition lower_char :: "char \<Rightarrow> char" where
  "lower_char c =
     (if 65 \<le> (of_char c :: nat) \<and> (of_char c :: nat) \<le> 90
      then char_of (of_char c + 32 :: nat) else c)"

definition toLowerCase :: "string \<Rightarrow> string" where
  "toLowerCase s = map lower_char s"

definition startsWith :: "string \<Rightarrow> string \<Rightarrow> bool" where
  "startsWith s t = (take (length t) s = t)"

fun str_includes :: "string \<Rightarrow> string \<Rightarrow> bool" where
  "str_includes [] t = (t = [])"
| "str_includes (c # s) t = (startsWith (c # s) t \<or> str_includes s t)"

subsection \<open>Arrays\<close>

text \<open>\<open>Array.prototype.findIndex\<close>: the first index satisfying the predicate, or -1.\<close>

fun findIndex :: "('a \<Rightarrow> bool) \<Rightarrow> 'a list \<Rightarrow> int" where
  "findIndex P [] = -1"
| "findIndex P (x # xs) =
     (if P x then 0 else (let i = findIndex P xs in if i < 0 then -1 else i + 1))"

text \<open>
  \<open>Array.prototype.slice(start, end)\<close>: a negative index counts from the end, and both
  indices are clamped to the array.
\<close>

definition relative_index :: "nat \<Rightarrow> int \<Rightarrow> nat" where
  "relative_index n i = (if i < 0 then nat (max (int n + i) 0) else min (nat i) n)"

definition slice :: "'a list \<Rightarrow> int \<Rightarrow> int \<Rightarrow> 'a list" where
  "slice xs start fin =
     (let k = relative_index (length xs) start;
          e = relative_index (length xs) fin
      in take (e - k) (drop k xs))"

text \<open>\<open>xs.splice(i, 1, item)\<close> replaces the element at index \<open>i\<close>.\<close>

definition splice1 :: "'a list \<Rightarrow> nat \<Rightarrow> 'a \<Rightarrow> 'a list" where
  "splice1 xs i item = take i xs @ item # drop (Suc i) xs"

text \<open>
  The operator \<open>a ?? b\<close> on an optional value, and the truthiness of an optional string,
  of an optional value of unknown type and of an optional number.
\<close>

definition nullish_or :: "'a option \<Rightarrow> 'a \<Rightarrow> 'a" where
  "nullish_or a b = (case a of None \<Rightarrow> b | Some v \<Rightarrow> v)"

definition truthy_str :: "string option \<Rightarrow> bool" where
  "truthy_str a = (case a of None \<Rightarrow> False | Some s \<Rightarrow> s \<noteq> [])"

definition truthy_unknown :: "jsval option \<Rightarrow> bool" where
  "truthy_unknown a = (case a of None \<Rightarrow> False | Some v \<Rightarrow> truthy v)"

definition truthy_status :: "jsnum option \<Rightarrow> bool" where
  "truthy_status a = (case a of None \<Rightarrow> False | Some n \<Rightarrow> truthy_num n)"

text \<open>
  A number inside a template literal. The conversion of a number to a string is a
  parameter \<open>ToString\<close> of the model; an absent value prints as \<open>undefined\<close>.
\<close>

definition template_num :: "(jsnum \<Rightarrow> string) \<Rightarrow> jsnum option \<Rightarrow> string" where
  "template_num ToString a = (case a of None \<Rightarrow> ''undefined'' | Some n \<Rightarrow> ToString n)"

section \<open>Data model (types.ts)\<close>

datatype SearchMode = City | Zip | Coords

fun mode_string :: "SearchMode \<Rightarrow> string" where
  "mode_string City = ''city''"
| "mode_string Zip = ''zip''"
| "mode_string Coords = ''coords''"

text \<open>
  Fields of \<open>WeatherView\<close> carry the prefix \<open>w_\<close>, fields of \<open>SavedForecast\<close> the prefix
  \<open>sf_\<close> and fields of \<open>AppNotification\<close> the prefix \<open>n_\<close>; optional fields are options.
\<close>

record WeatherView =
  w_id :: jsnum
  w_name :: string
  w_country :: string
  w_description :: string
  w_icon :: string
  w_temperature :: jsnum
  w_humidity :: jsnum
  w_wind :: jsnum
  w_pressure :: jsnum
  w_sunrise :: jsnum
  w_sunset :: jsnum
  w_updatedAt :: jsnum

record SavedForecast =
  sf_key :: string
  sf_mode :: SearchMode
  sf_value :: string
  sf_country :: "string option"
  sf_lat :: "jsnum option"
  sf_lon :: "jsnum option"
  sf_weather :: WeatherView

datatype NotificationType = Success | Info | Danger

record AppNotification =
  n_id :: int
  n_type :: NotificationType
  n_text :: string

section \<open>Thrown values\<close>

text \<open>
  A caught value is a string, an object of the shape that \<open>parseError\<close> reads
  (\<open>response?: {data?: {message?: string}; status?: number}\<close>, \<open>request?: unknown\<close>,
  \<open>message?: string\<close>), or any other value.
\<close>

record response_data =
  d_message :: "string option"

record error_response =
  r_data :: "response_data option"
  r_status :: "jsnum option"

record error_object =
  e_response :: "error_response option"
  e_request :: "jsval option"
  e_message :: "string option"

datatype thrown = Thrown_string string | Thrown_object error_object | Thrown_other

text \<open>\<open>new Error(msg)\<close>.\<close>

definition Error :: "string \<Rightarrow> thrown" where
  "Error msg = Thrown_object \<lparr>e_response = None, e_request = None, e_message = Some msg\<rparr>"

section \<open>Weather client (services/weatherService.ts)\<close>

record WeatherQuery =
  q_mode :: SearchMode
  q_city :: "string option"
  q_zip :: "string option"
  q_country :: "string option"
  q_lat :: "jsnum option"
  q_lon :: "jsnum option"
  q_apiKey :: string

record api_sys =
  sys_country :: "string option"
  sys_sunrise :: "jsnum option"
  sys_sunset :: "jsnum option"

record api_main =
  main_temp :: "jsnum option"
  main_humidity :: "jsnum option"
  main_pressure :: "jsnum option"

record api_wind =
  wind_speed :: "jsnum option"

record api_condition =
  c_description :: "string option"
  c_icon :: "string option"

record WeatherApiResponse =
  api_id :: jsnum
  api_name :: string
  api_sys :: "api_sys option"
  api_main :: "api_main option"
  api_wind :: "api_wind option"
  api_weather :: "api_condition list"

text \<open>The query parameters of the provider request.\<close>

record request_params =
  appid :: string
  units :: string
  p_q :: "string option"
  p_zip :: "string option"
  p_lat :: "jsnum option"
  p_lon :: "jsnum option"

text \<open>
  The first half of \<open>fetchWeather\<close>: the parameters are built and the query is validated
  per mode. A validation failure is thrown before the request is issued.
\<close>

definition request_of :: "WeatherQuery \<Rightarrow> thrown + request_params" where
  "request_of query =
     (let params = \<lparr>appid = q_apiKey query, units = ''metric'',
                     p_q = None, p_zip = None, p_lat = None, p_lon = None\<rparr>
      in if q_mode query = City then
           (case q_city query of
              None \<Rightarrow> Inl (Error ''City name is required'')
            | Some city \<Rightarrow>
                if trim city = [] then Inl (Error ''City name is required'')
                else Inr (params\<lparr>p_q := Some (trim city)\<rparr>))
         else if q_mode query = Zip then
           (case q_zip query of
              None \<Rightarrow> Inl (Error ''ZIP code is required'')
            | Some z \<Rightarrow>
                if trim z = [] then Inl (Error ''ZIP code is required'')
                else Inr (params\<lparr>p_zip :=
                       Some (if truthy_str (q_country query)
                             then trim z @ '','' @ trim (the (q_country query))
                             else trim z)\<rparr>))
         else if q_lat query = None \<or> q_lon query = None then
           Inl (Error ''Latitude and longitude are required'')
         else Inr (params\<lparr>p_lat := q_lat query, p_lon := q_lon query\<rparr>))"

text \<open>
  The second half issues the GET request. The provider and the transport are the
  environment: \<open>net\<close> maps the request parameters to the rejection or the response body of
  this call. A rejection is re-thrown unchanged.
\<close>

definition fetchWeather ::
  "(request_params \<Rightarrow> thrown + WeatherApiResponse) \<Rightarrow> WeatherQuery \<Rightarrow> thrown + WeatherApiResponse"
where
  "fetchWeather net query =
     (case request_of query of
        Inl e \<Rightarrow> Inl e
      | Inr params \<Rightarrow> net params)"

section \<open>Persistence adapter (storage.ts)\<close>

text \<open>
  The JSON documents. A stored string is either a JSON text, identified with the document
  it denotes, or some other string, which \<open>JSON.parse\<close> rejects.
\<close>

datatype json =
    JNull
  | JBool bool
  | JNum rat
  | JStr string
  | JArr "json list"
  | JObj "(string \<times> json) list"

datatype text_value = Json_text json | Other_text string

text \<open>
  \<open>JSON.stringify\<close>: a property whose value is \<open>undefined\<close> is omitted, an
  \<open>undefined\<close> array element and a non-finite number are written as \<open>null\<close>.
\<close>

fun to_json :: "jsval \<Rightarrow> json option"
  and to_json_elems :: "jsval list \<Rightarrow> json list"
  and to_json_props :: "(string \<times> jsval) list \<Rightarrow> (string \<times> json) list"
where
  "to_json Undefined = None"
| "to_json Null = Some JNull"
| "to_json (Bool b) = Some (JBool b)"
| "to_json (Num (Fin r)) = Some (JNum r)"
| "to_json (Num n) = Some JNull"
| "to_json (Str s) = Some (JStr s)"
| "to_json (Arr vs) = Some (JArr (to_json_elems vs))"
| "to_json (Obj ps) = Some (JObj (to_json_props ps))"
| "to_json_elems [] = []"
| "to_json_elems (v # vs) =
     (case to_json v of None \<Rightarrow> JNull | Some j \<Rightarrow> j) # to_json_elems vs"
| "to_json_props [] = []"
| "to_json_props ((k, v) # ps) =
     (case to_json v of None \<Rightarrow> to_json_props ps | Some j \<Rightarrow> (k, j) # to_json_props ps)"

definition JSON_stringify :: "jsval \<Rightarrow> text_value option" where
  "JSON_stringify v = map_option Json_text (to_json v)"

fun of_json :: "json \<Rightarrow> jsval"
  and of_json_elems :: "json list \<Rightarrow> jsval list"
  and of_json_props :: "(string \<times> json) list \<Rightarrow> (string \<times> jsval) list"
where
  "of_json JNull = Null"
| "of_json (JBool b) = Bool b"
| "of_json (JNum r) = Num (Fin r)"
| "of_json (JStr s) = Str s"
| "of_json (JArr js) = Arr (of_json_elems js)"
| "of_json (JObj ps) = Obj (of_json_props ps)"
| "of_json_elems [] = []"
| "of_json_elems (j # js) = of_json j # of_json_elems js"
| "of_json_props [] = []"
| "of_json_props ((k, j) # ps) = (k, of_json j) # of_json_props ps"

definition SyntaxError :: thrown where
  "SyntaxError = Error ''Unexpected token''"

fun JSON_parse :: "text_value \<Rightarrow> thrown + jsval" where
  "JSON_parse (Json_text j) = Inr (of_json j)"
| "JSON_parse (Other_text s) = Inl SyntaxError"

text \<open>
  The browser storage: the slot \<open>weather-forecasts\<close>, and whether reading and writing
  succeed (a browser may refuse either by throwing).
\<close>

record localStorage =
  slot :: "text_value option"
  readable :: bool
  writable :: bool

text \<open>The objects of the saved collection as JavaScript values.\<close>

definition opt_value :: "('a \<Rightarrow> jsval) \<Rightarrow> 'a option \<Rightarrow> jsval" where
  "opt_value f a = (case a of None \<Rightarrow> Undefined | Some v \<Rightarrow> f v)"

definition weather_value :: "WeatherView \<Rightarrow> jsval" where
  "weather_value w = Obj
     [(''id'', Num (w_id w)), (''name'', Str (w_name w)), (''country'', Str (w_country w)),
      (''description'', Str (w_description w)), (''icon'', Str (w_icon w)),
      (''temperature'', Num (w_temperature w)), (''humidity'', Num (w_humidity w)),
      (''wind'', Num (w_wind w)), (''pressure'', Num (w_pressure w)),
      (''sunrise'', Num (w_sunrise w)), (''sunset'', Num (w_sunset w)),
      (''updatedAt'', Num (w_updatedAt w))]"

definition forecast_value :: "SavedForecast \<Rightarrow> jsval" where
  "forecast_value f = Obj
     [(''key'', Str (sf_key f)), (''mode'', Str (mode_string (sf_mode f))),
      (''value'', Str (sf_value f)), (''country'', opt_value Str (sf_country f)),
      (''lat'', opt_value Num (sf_lat f)), (''lon'', opt_value Num (sf_lon f)),
      (''weather'', weather_value (sf_weather f))]"

text \<open>
  \<open>loadSavedForecasts\<close>: a missing or empty slot, a read failure, an unparsable text and a
  document that is not an array all give the empty collection.
\<close>

definition loadSavedForecasts :: "localStorage \<Rightarrow> jsval list" where
  "loadSavedForecasts store =
     (if \<not> readable store then []
      else case slot store of
             None \<Rightarrow> []
           | Some raw \<Rightarrow>
               if raw = Other_text [] then []
               else (case JSON_parse raw of
                       Inl e \<Rightarrow> []
                     | Inr parsed \<Rightarrow> (case parsed of Arr items \<Rightarrow> items | _ \<Rightarrow> [])))"

text \<open>\<open>persistForecasts\<close>: a write failure is caught and the slot keeps its content.\<close>

definition persistForecasts :: "SavedForecast list \<Rightarrow> localStorage \<Rightarrow> localStorage" where
  "persistForecasts items store =
     (if writable store
      then store\<lparr>slot := Some (nullish_or (JSON_stringify (Arr (map forecast_value items)))
                                       (Other_text ''undefined''))\<rparr>
      else store)"

section \<open>Error mapper (App.vue)\<close>

text \<open>
  \<open>parseError\<close>. The conversion of the status to a string is the parameter \<open>ToString\<close>.
\<close>

definition parseError :: "(jsnum \<Rightarrow> string) \<Rightarrow> thrown \<Rightarrow> string" where
  "parseError ToString error =
     (case error of
        Thrown_string s \<Rightarrow> s
      | Thrown_object axiosError \<Rightarrow>
          if truthy_unknown (e_request axiosError) \<and> e_response axiosError = None
          then ''Network error: Could not reach the server. Check your internet connection.''
          else
            (case e_response axiosError of
               Some response \<Rightarrow>
                 (let msg = Option.bind (r_data response) d_message;
                      status = r_status response
                  in if truthy_str msg then
                       (if truthy_status status then ''['' @ ToString (the status) @ ''] '' else '''')
                       @ the msg
                     else if status = Some (Fin 401) then
                       ''Invalid API key. Please check your OpenWeatherMap API key.''
                     else if status = Some (Fin 404) then
                       ''City not found. Please check the city name.''
                     else if status = Some (Fin 429) then
                       ''Too many requests. Please wait a moment.''
                     else ''API error: '' @
                       (if truthy_status status then ToString (the status) else ''Unknown error''))
             | None \<Rightarrow>
                 if truthy_str (e_message axiosError) then the (e_message axiosError)
                 else ''Something went wrong. Please try again.'')
      | Thrown_other \<Rightarrow> ''Something went wrong. Please try again.'')"

section \<open>Application state (App.vue)\<close>

definition API_KEY :: string where
  "API_KEY = ''b55616e8a1f4ebd7ddac31a77c399945''"

definition PAGE_SIZE :: nat where
  "PAGE_SIZE = 10"

definition REFRESH_MS :: nat where
  "REFRESH_MS = 1000 * 60 * 5"

text \<open>The reactive form of the add dialog; its fields carry the prefix \<open>f_\<close>.\<close>

record form_state =
  f_mode :: SearchMode
  f_city :: string
  f_zip :: string
  f_zipCountry :: string
  f_lat :: string
  f_lon :: string

record app_state =
  notifications :: "AppNotification list"
  modalOpen :: bool
  isLoading :: bool
  searchTerm :: string
  currentPage :: int
  savedForecasts :: "SavedForecast list"
  form :: form_state
  storage :: localStorage

text \<open>
  \<open>notify\<close> appends a notification whose id is the clock reading \<open>now\<close>; the timer it
  starts runs \<open>dismiss\<close> with that id after 3.5 seconds.
\<close>

definition notify :: "NotificationType \<Rightarrow> string \<Rightarrow> int \<Rightarrow> app_state \<Rightarrow> app_state" where
  "notify ty txt now st =
     st\<lparr>notifications := notifications st @ [\<lparr>n_id = now, n_type = ty, n_text = txt\<rparr>]\<rparr>"

definition dismiss :: "int \<Rightarrow> app_state \<Rightarrow> app_state" where
  "dismiss i st = st\<lparr>notifications := filter (\<lambda>n. n_id n \<noteq> i) (notifications st)\<rparr>"

subsection \<open>Derived views\<close>

text \<open>The four strings a search term is compared with.\<close>

definition search_fields :: "(jsnum \<Rightarrow> string) \<Rightarrow> SavedForecast \<Rightarrow> string list" where
  "search_fields ToString f =
     [w_name (sf_weather f), w_country (sf_weather f), w_description (sf_weather f),
      ToString (Math_round (w_temperature (sf_weather f)))]"

definition filtered ::
  "(jsnum \<Rightarrow> string) \<Rightarrow> string \<Rightarrow> SavedForecast list \<Rightarrow> SavedForecast list"
where
  "filtered ToString term_input saved =
     (let term = toLowerCase (trim term_input)
      in if term = [] then saved
         else filter (\<lambda>f. list_ex (\<lambda>field. str_includes (toLowerCase field) term)
                              (filter (\<lambda>field. field \<noteq> []) (search_fields ToString f)))
                saved)"

definition paged :: "int \<Rightarrow> 'a list \<Rightarrow> 'a list" where
  "paged page flt =
     (let start = (page - 1) * int PAGE_SIZE
      in slice flt start (start + int PAGE_SIZE))"

text \<open>\<open>Math.max(1, Math.ceil(filtered.length / PAGE_SIZE) || 1)\<close>.\<close>

definition totalPages :: "'a list \<Rightarrow> int" where
  "totalPages flt =
     (let c = \<lceil>(of_nat (length flt) :: rat) / of_nat PAGE_SIZE\<rceil>
      in max 1 (if c = 0 then 1 else c))"

text \<open>The watcher on \<open>filtered\<close>: it runs when the filtered sequence has changed.\<close>

definition watch_filtered :: "(jsnum \<Rightarrow> string) \<Rightarrow> app_state \<Rightarrow> app_state" where
  "watch_filtered ToString st =
     (if currentPage st > totalPages (filtered ToString (searchTerm st) (savedForecasts st))
      then st\<lparr>currentPage := 1\<rparr> else st)"

subsection \<open>Keys and the mapping of a provider response\<close>

definition forecastKey :: "SearchMode \<Rightarrow> string \<Rightarrow> string" where
  "forecastKey m v = toLowerCase (mode_string m @ ''-'' @ v)"

text \<open>\<open>mapWeather\<close>; \<open>now\<close> is the reading of \<open>Date.now()\<close> when the response is mapped.\<close>

definition mapWeather :: "int \<Rightarrow> WeatherApiResponse \<Rightarrow> WeatherView" where
  "mapWeather now data =
     (let first = (case api_weather data of [] \<Rightarrow> None | c # _ \<Rightarrow> Some c);
          iconCode = nullish_or (Option.bind first c_icon) ''01d''
      in \<lparr>w_id = api_id data,
          w_name = api_name data,
          w_country = nullish_or (Option.bind (api_sys data) sys_country) [],
          w_description = nullish_or (Option.bind first c_description) ''N/A'',
          w_icon = ''https://openweathermap.org/img/wn/'' @ iconCode @ ''@2x.png'',
          w_temperature = nullish_or (Option.bind (api_main data) main_temp) (Fin 0),
          w_humidity = nullish_or (Option.bind (api_main data) main_humidity) (Fin 0),
          w_wind = nullish_or (Option.bind (api_wind data) wind_speed) (Fin 0),
          w_pressure = nullish_or (Option.bind (api_main data) main_pressure) (Fin 0),
          w_sunrise = nullish_or (Option.bind (api_sys data) sys_sunrise) (Fin 0),
          w_sunset = nullish_or (Option.bind (api_sys data) sys_sunset) (Fin 0),
          w_updatedAt = Fin (of_int now)\<rparr>)"

subsection \<open>Adding a forecast\<close>

text \<open>
  The object \<open>buildQuery\<close> returns; the conversion \<open>Number\<close> of the two coordinate
  inputs is the parameter \<open>ToNumber\<close>.
\<close>

record form_query =
  fq_mode :: SearchMode
  fq_city :: "string option"
  fq_zip :: "string option"
  fq_country :: "string option"
  fq_lat :: "jsnum option"
  fq_lon :: "jsnum option"

definition buildQuery :: "(string \<Rightarrow> jsnum) \<Rightarrow> form_state \<Rightarrow> thrown + form_query" where
  "buildQuery ToNumber f =
     (let none = \<lparr>fq_mode = f_mode f, fq_city = None, fq_zip = None, fq_country = None,
                  fq_lat = None, fq_lon = None\<rparr>
      in if f_mode f = City then
           (if trim (f_city f) = [] then Inl (Error ''Enter a city name.'')
            else Inr (none\<lparr>fq_city := Some (trim (f_city f))\<rparr>))
         else if f_mode f = Zip then
           (if trim (f_zip f) = [] then Inl (Error ''Enter a ZIP/postal code.'')
            else Inr (none\<lparr>fq_zip := Some (trim (f_zip f)),
                           fq_country := (if trim (f_zipCountry f) = [] then None
                                          else Some (trim (f_zipCountry f)))\<rparr>))
         else
           (let lat = ToNumber (f_lat f); lon = ToNumber (f_lon f)
            in if isNaN lat \<or> isNaN lon then Inl (Error ''Enter valid coordinates.'')
               else Inr (none\<lparr>fq_lat := Some lat, fq_lon := Some lon\<rparr>)))"

definition resetForm :: "form_state \<Rightarrow> form_state" where
  "resetForm f = f\<lparr>f_city := [], f_zip := [], f_lat := [], f_lon := [],
                   f_zipCountry := ''us'', f_mode := City\<rparr>"

text \<open>\<open>{ ...query, apiKey: API_KEY }\<close>.\<close>

definition with_apiKey :: "form_query \<Rightarrow> string \<Rightarrow> WeatherQuery" where
  "with_apiKey query k =
     \<lparr>q_mode = fq_mode query, q_city = fq_city query, q_zip = fq_zip query,
      q_country = fq_country query, q_lat = fq_lat query, q_lon = fq_lon query,
      q_apiKey = k\<rparr>"

text \<open>The key that \<open>handleAdd\<close> derives from the query.\<close>

definition derived_key :: "(jsnum \<Rightarrow> string) \<Rightarrow> form_query \<Rightarrow> string" where
  "derived_key ToString query =
     (if fq_mode query = Coords
      then forecastKey (fq_mode query)
             (template_num ToString (fq_lat query) @ '','' @ template_num ToString (fq_lon query))
      else forecastKey (fq_mode query)
             (if truthy_str (fq_city query) then the (fq_city query)
              else if truthy_str (fq_zip query) then the (fq_zip query)
              else []))"

text \<open>The entry that \<open>handleAdd\<close> builds.\<close>

definition new_item :: "(jsnum \<Rightarrow> string) \<Rightarrow> form_query \<Rightarrow> WeatherView \<Rightarrow> SavedForecast" where
  "new_item ToString query weather =
     \<lparr>sf_key = derived_key ToString query,
      sf_mode = fq_mode query,
      sf_value = nullish_or (fq_city query)
                   (nullish_or (fq_zip query)
                      (template_num ToString (fq_lat query) @ '','' @
                       template_num ToString (fq_lon query))),
      sf_country = fq_country query,
      sf_lat = fq_lat query,
      sf_lon = fq_lon query,
      sf_weather = weather\<rparr>"

text \<open>The replacement in place, or the insertion at the front.\<close>

definition upsert :: "SavedForecast \<Rightarrow> SavedForecast list \<Rightarrow> SavedForecast list" where
  "upsert item saved =
     (let existingIndex = findIndex (\<lambda>f. sf_key f = sf_key item) saved
      in if existingIndex \<ge> 0 then splice1 saved (nat existingIndex) item
         else item # saved)"

text \<open>
  What the environment contributes to one fetch: the reply of the network to the request,
  the moment at which that reply arrives, and the reading of \<open>Date.now()\<close> when the
  response is mapped.
\<close>

record fetch_env =
  reply :: "request_params \<Rightarrow> thrown + WeatherApiResponse"
  arrival :: nat
  clock :: int

text \<open>
  The \<open>try\<close> block of \<open>handleAdd\<close> up to the mapped response: the value thrown, or the
  query together with the new snapshot.
\<close>

definition add_fetch ::
  "(string \<Rightarrow> jsnum) \<Rightarrow> fetch_env \<Rightarrow> form_state \<Rightarrow> thrown + (form_query \<times> WeatherView)"
where
  "add_fetch ToNumber env f =
     (case buildQuery ToNumber f of
        Inl e \<Rightarrow> Inl e
      | Inr query \<Rightarrow>
          (case fetchWeather (reply env) (with_apiKey query API_KEY) of
             Inl e \<Rightarrow> Inl e
           | Inr raw \<Rightarrow> Inr (query, mapWeather (clock env) raw)))"

text \<open>
  \<open>handleAdd\<close>, from the click to the end of its \<open>finally\<close> block; \<open>t_note\<close> is the clock
  reading used by \<open>notify\<close>.
\<close>

definition handleAdd ::
  "(jsnum \<Rightarrow> string) \<Rightarrow> (string \<Rightarrow> jsnum) \<Rightarrow> fetch_env \<Rightarrow> int \<Rightarrow> app_state \<Rightarrow> app_state"
where
  "handleAdd ToString ToNumber env t_note st =
     (if API_KEY = [] then
        notify Danger ''Missing VITE_OPENWEATHER_KEY in .env file.'' t_note st
      else
        (case add_fetch ToNumber env (form st) of
           Inl e \<Rightarrow> (notify Danger (parseError ToString e) t_note st)\<lparr>isLoading := False\<rparr>
         | Inr (query, weather) \<Rightarrow>
             (let saved = upsert (new_item ToString query weather) (savedForecasts st);
                  st1 = st\<lparr>savedForecasts := saved,
                           storage := persistForecasts saved (storage st)\<rparr>;
                  st2 = notify Success ''Forecast added.'' t_note st1
              in st2\<lparr>modalOpen := False, form := resetForm (form st2), isLoading := False\<rparr>)))"

subsection \<open>Removing a forecast\<close>

definition removeForecast :: "string \<Rightarrow> int \<Rightarrow> app_state \<Rightarrow> app_state" where
  "removeForecast k t_note st =
     (let saved = filter (\<lambda>f. sf_key f \<noteq> k) (savedForecasts st);
          st1 = st\<lparr>savedForecasts := saved, storage := persistForecasts saved (storage st)\<rparr>
      in notify Info ''Forecast removed.'' t_note st1)"

subsection \<open>Refreshing all forecasts\<close>

text \<open>The query that \<open>refreshAll\<close> rebuilds from a saved entry.\<close>

definition refresh_query :: "SavedForecast \<Rightarrow> WeatherQuery" where
  "refresh_query item =
     \<lparr>q_mode = sf_mode item,
      q_city = (if sf_mode item = City then Some (sf_value item) else None),
      q_zip = (if sf_mode item = Zip then Some (sf_value item) else None),
      q_country = sf_country item,
      q_lat = sf_lat item,
      q_lon = sf_lon item,
      q_apiKey = API_KEY\<rparr>"

text \<open>
  The promise of one entry: it settles with the thrown value or with the entry carrying
  the new snapshot. A validation failure settles at moment 0, before every reply; a reply
  settles the promise after its arrival.
\<close>

definition refresh_entry ::
  "fetch_env \<Rightarrow> SavedForecast \<Rightarrow> nat \<times> (thrown + SavedForecast)"
where
  "refresh_entry env item =
     (case request_of (refresh_query item) of
        Inl e \<Rightarrow> (0, Inl e)
      | Inr params \<Rightarrow>
          (case fetchWeather (reply env) (refresh_query item) of
             Inl e \<Rightarrow> (Suc (arrival env), Inl e)
           | Inr raw \<Rightarrow>
               (Suc (arrival env), Inr (item\<lparr>sf_weather := mapWeather (clock env) raw\<rparr>))))"

text \<open>
  \<open>Promise.all\<close> over settled promises, each with the moment at which it settled: the
  rejection that settled first (the earlier promise on a tie), or all the values in order.
\<close>

fun first_rejection :: "(nat \<times> (thrown + 'a)) list \<Rightarrow> (nat \<times> thrown) option" where
  "first_rejection [] = None"
| "first_rejection ((t, Inr v) # ps) = first_rejection ps"
| "first_rejection ((t, Inl e) # ps) =
     (case first_rejection ps of
        None \<Rightarrow> Some (t, e)
      | Some (t', e') \<Rightarrow> if t' < t then Some (t', e') else Some (t, e))"

fun fulfilled :: "(nat \<times> (thrown + 'a)) list \<Rightarrow> 'a list" where
  "fulfilled [] = []"
| "fulfilled ((t, Inr v) # ps) = v # fulfilled ps"
| "fulfilled ((t, Inl e) # ps) = fulfilled ps"

definition Promise_all :: "(nat \<times> (thrown + 'a)) list \<Rightarrow> thrown + 'a list" where
  "Promise_all ps =
     (case first_rejection ps of
        Some (t, e) \<Rightarrow> Inl e
      | None \<Rightarrow> Inr (fulfilled ps))"

text \<open>
  \<open>refreshAll\<close>; \<open>env i\<close> is what the environment contributes to the fetch of the entry
  at index \<open>i\<close>.
\<close>

definition refresh_promises ::
  "(nat \<Rightarrow> fetch_env) \<Rightarrow> SavedForecast list \<Rightarrow> (nat \<times> (thrown + SavedForecast)) list"
where
  "refresh_promises env saved = map (\<lambda>(i, item). refresh_entry (env i) item) (enumerate 0 saved)"

definition refreshAll ::
  "(jsnum \<Rightarrow> string) \<Rightarrow> bool \<Rightarrow> (nat \<Rightarrow> fetch_env) \<Rightarrow> int \<Rightarrow> app_state \<Rightarrow> app_state"
where
  "refreshAll ToString showMessage env t_note st =
     (if API_KEY = [] \<or> savedForecasts st = [] then st
      else
        (case Promise_all (refresh_promises env (savedForecasts st)) of
           Inr refreshed \<Rightarrow>
             (let st1 = st\<lparr>savedForecasts := refreshed,
                           storage := persistForecasts refreshed (storage st)\<rparr>
              in if showMessage then notify Success ''Forecasts refreshed.'' t_note st1 else st1)
         | Inl e \<Rightarrow> notify Danger (parseError ToString e) t_note st))"

subsection \<open>Sequences of commands\<close>

text \<open>
  A user command: the form is filled in and saved, or the delete button of an entry is
  pressed.
\<close>

datatype command =
    Add form_state fetch_env int
  | Remove string int

fun exec :: "(jsnum \<Rightarrow> string) \<Rightarrow> (string \<Rightarrow> jsnum) \<Rightarrow> app_state \<Rightarrow> command \<Rightarrow> app_state" where
  "exec ToString ToNumber st (Add f env t_note) =
     handleAdd ToString ToNumber env t_note (st\<lparr>form := f\<rparr>)"
| "exec ToString ToNumber st (Remove k t_note) = removeForecast k t_note st"

definition run ::
  "(jsnum \<Rightarrow> string) \<Rightarrow> (string \<Rightarrow> jsnum) \<Rightarrow> app_state \<Rightarrow> command list \<Rightarrow> app_state"
where
  "run ToString ToNumber st cmds = foldl (exec ToString ToNumber) st cmds"

text \<open>The state of the application before anything is loaded.\<close>

definition initial_state :: "localStorage \<Rightarrow> app_state" where
  "initial_state store =
     \<lparr>notifications = [], modalOpen = False, isLoading = False, searchTerm = [],
      currentPage = 1, savedForecasts = [],
      form = \<lparr>f_mode = City, f_city = [], f_zip = [], f_zipCountry = ''us'',
               f_lat = [], f_lon = []\<rparr>,
      storage = store\<rparr>"

section \<open>Notions used to state the properties\<close>

subsection \<open>Search, as specified\<close>

text \<open>
  The search of the specification: the empty term selects everything, any other term
  selects the entries with a field that contains the lower-cased term.
\<close>

definition search_spec ::
  "(jsnum \<Rightarrow> string) \<Rightarrow> string \<Rightarrow> SavedForecast list \<Rightarrow> SavedForecast list"
where
  "search_spec ToString t saved =
     (if t = [] then saved
      else filter (\<lambda>f. list_ex (\<lambda>field. str_includes (toLowerCase field) (toLowerCase t))
                           (search_fields ToString f))
             saved)"

subsection \<open>Error classification, as specified\<close>

text \<open>
  The classification of the specification, in its order of precedence: a string; a request
  without a response; a response with a provider message; a response with a status only;
  a message field; the fallback.
\<close>

definition parseError_spec :: "(jsnum \<Rightarrow> string) \<Rightarrow> thrown \<Rightarrow> string" where
  "parseError_spec ToString error =
     (case error of
        Thrown_string s \<Rightarrow> s
      | Thrown_object a \<Rightarrow>
          (let msg = Option.bind (Option.bind (e_response a) r_data) d_message;
               status = Option.bind (e_response a) r_status
           in if truthy_unknown (e_request a) \<and> e_response a = None then
                ''Network error: Could not reach the server. Check your internet connection.''
              else if e_response a \<noteq> None \<and> truthy_str msg then
                ''['' @ template_num ToString status @ ''] '' @ the msg
              else if e_response a \<noteq> None \<and> truthy_status status then
                (if status = Some (Fin 401) then
                   ''Invalid API key. Please check your OpenWeatherMap API key.''
                 else if status = Some (Fin 404) then
                   ''City not found. Please check the city name.''
                 else if status = Some (Fin 429) then
                   ''Too many requests. Please wait a moment.''
                 else ''API error: '' @ template_num ToString status)
              else if truthy_str (e_message a) then the (e_message a)
              else ''Something went wrong. Please try again.'')
      | Thrown_other \<Rightarrow> ''Something went wrong. Please try again.'')"

subsection \<open>The pages of a filtered sequence\<close>

definition pages :: "'a list \<Rightarrow> 'a list list" where
  "pages flt = map (\<lambda>p. paged p flt) [1 .. totalPages flt]"

subsection \<open>The outcome of the fetch of one entry\<close>

definition fetch_outcome :: "fetch_env \<Rightarrow> SavedForecast \<Rightarrow> thrown + WeatherApiResponse" where
  "fetch_outcome env item = fetchWeather (reply env) (refresh_query item)"

definition fetch_outcomes ::
  "(nat \<Rightarrow> fetch_env) \<Rightarrow> SavedForecast list \<Rightarrow> (thrown + WeatherApiResponse) list"
where
  "fetch_outcomes env saved = map (\<lambda>(i, item). fetch_outcome (env i) item) (enumerate 0 saved)"

subsection \<open>Reading a loaded value as a saved forecast\<close>

text \<open>
  The result of \<open>loadSavedForecasts\<close> is used at type \<open>SavedForecast[]\<close>. A loaded value is
  read field by field; an optional field that is missing reads as absent.
\<close>

definition read_str :: "jsval \<Rightarrow> string option" where
  "read_str v = (case v of Str s \<Rightarrow> Some s | _ \<Rightarrow> None)"

definition read_num :: "jsval \<Rightarrow> jsnum option" where
  "read_num v = (case v of Num n \<Rightarrow> Some n | _ \<Rightarrow> None)"

definition read_optional :: "(jsval \<Rightarrow> 'a option) \<Rightarrow> jsval \<Rightarrow> 'a option option" where
  "read_optional rd v = (case v of Undefined \<Rightarrow> Some None | _ \<Rightarrow> map_option Some (rd v))"

definition read_mode :: "jsval \<Rightarrow> SearchMode option" where
  "read_mode v =
     (if v = Str ''city'' then Some City
      else if v = Str ''zip'' then Some Zip
      else if v = Str ''coords'' then Some Coords
      else None)"

definition as_weather :: "jsval \<Rightarrow> WeatherView option" where
  "as_weather v = do {
     i \<leftarrow> read_num (get v ''id'');
     n \<leftarrow> read_str (get v ''name'');
     c \<leftarrow> read_str (get v ''country'');
     d \<leftarrow> read_str (get v ''description'');
     ic \<leftarrow> read_str (get v ''icon'');
     t \<leftarrow> read_num (get v ''temperature'');
     h \<leftarrow> read_num (get v ''humidity'');
     wi \<leftarrow> read_num (get v ''wind'');
     p \<leftarrow> read_num (get v ''pressure'');
     sr \<leftarrow> read_num (get v ''sunrise'');
     ss \<leftarrow> read_num (get v ''sunset'');
     u \<leftarrow> read_num (get v ''updatedAt'');
     Some \<lparr>w_id = i, w_name = n, w_country = c, w_description = d, w_icon = ic,
           w_temperature = t, w_humidity = h, w_wind = wi, w_pressure = p,
           w_sunrise = sr, w_sunset = ss, w_updatedAt = u\<rparr>
   }"

definition as_forecast :: "jsval \<Rightarrow> SavedForecast option" where
  "as_forecast v = do {
     k \<leftarrow> read_str (get v ''key'');
     m \<leftarrow> read_mode (get v ''mode'');
     x \<leftarrow> read_str (get v ''value'');
     c \<leftarrow> read_optional read_str (get v ''country'');
     la \<leftarrow> read_optional read_num (get v ''lat'');
     lo \<leftarrow> read_optional read_num (get v ''lon'');
     w \<leftarrow> as_weather (get v ''weather'');
     Some \<lparr>sf_key = k, sf_mode = m, sf_value = x, sf_country = c, sf_lat = la, sf_lon = lo,
           sf_weather = w\<rparr>
   }"

text \<open>What a value becomes when it is written as JSON and parsed again.\<close>

definition json_image :: "jsval \<Rightarrow> jsval" where
  "json_image v = (case to_json v of None \<Rightarrow> Undefined | Some j \<Rightarrow> of_json j)"

text \<open>The numbers that a JSON text can hold are the finite ones.\<close>

fun finite_num :: "jsnum \<Rightarrow> bool" where
  "finite_num (Fin r) = True"
| "finite_num _ = False"

definition finite_opt :: "jsnum option \<Rightarrow> bool" where
  "finite_opt a = (case a of None \<Rightarrow> True | Some n \<Rightarrow> finite_num n)"

definition finite_weather :: "WeatherView \<Rightarrow> bool" where
  "finite_weather w \<longleftrightarrow>
     finite_num (w_id w) \<and> finite_num (w_temperature w) \<and> finite_num (w_humidity w) \<and>
     finite_num (w_wind w) \<and> finite_num (w_pressure w) \<and> finite_num (w_sunrise w) \<and>
     finite_num (w_sunset w) \<and> finite_num (w_updatedAt w)"

definition finite_forecast :: "SavedForecast \<Rightarrow> bool" where
  "finite_forecast f \<longleftrightarrow>
     finite_opt (sf_lat f) \<and> finite_opt (sf_lon f) \<and> finite_weather (sf_weather f)"

definition healthy :: "localStorage \<Rightarrow> bool" where
  "healthy store \<longleftrightarrow> readable store \<and> writable store"

subsection \<open>Sample conversions and sample data\<close>

text \<open>
  A conversion of numbers to strings that agrees with JavaScript on the non-finite values
  and on the integers of magnitude below \<open>10^21\<close> (a fraction is cut off), and a conversion
  of strings to numbers that agrees with \<open>Number\<close> on blank strings, on strings of decimal
  digits and on \<open>Infinity\<close> (every other string is taken to not-a-number). They instantiate
  the parameters \<open>ToString\<close> and \<open>ToNumber\<close> in the examples.
\<close>

fun decimal :: "nat \<Rightarrow> string" where
  "decimal n = (if n < 10 then [char_of (48 + n)]
                else decimal (n div 10) @ [char_of (48 + n mod 10)])"

definition show_int :: "int \<Rightarrow> string" where
  "show_int i = (if i < 0 then ''-'' @ decimal (nat (- i)) else decimal (nat i))"

fun show_num :: "jsnum \<Rightarrow> string" where
  "show_num (Fin r) = show_int \<lfloor>r\<rfloor>"
| "show_num NaN = ''NaN''"
| "show_num PosInf = ''Infinity''"
| "show_num NegInf = ''-Infinity''"

definition is_digit :: "char \<Rightarrow> bool" where
  "is_digit c = (48 \<le> (of_char c :: nat) \<and> (of_char c :: nat) \<le> 57)"

definition digits_value :: "string \<Rightarrow> nat" where
  "digits_value s = foldl (\<lambda>n c. 10 * n + (of_char c - 48)) 0 s"

definition read_number :: "string \<Rightarrow> jsnum" where
  "read_number s =
     (let t = trim s
      in if t = [] then Fin 0
         else if list_all is_digit t then Fin (of_nat (digits_value t))
         else if t = ''Infinity'' then PosInf
         else NaN)"

definition sample_weather :: "string \<Rightarrow> rat \<Rightarrow> int \<Rightarrow> WeatherView" where
  "sample_weather n temp now =
     \<lparr>w_id = Fin 2643743, w_name = n, w_country = ''GB'', w_description = ''clear sky'',
      w_icon = ''https://openweathermap.org/img/wn/01d@2x.png'', w_temperature = Fin temp,
      w_humidity = Fin 40, w_wind = Fin 3, w_pressure = Fin 1012, w_sunrise = Fin 1700000000,
      w_sunset = Fin 1700030000, w_updatedAt = Fin (of_int now)\<rparr>"

definition sample_city :: "string \<Rightarrow> int \<Rightarrow> SavedForecast" where
  "sample_city n now =
     \<lparr>sf_key = forecastKey City n, sf_mode = City, sf_value = n, sf_country = None,
      sf_lat = None, sf_lon = None, sf_weather = sample_weather n 12 now\<rparr>"

definition sample_response :: "string \<Rightarrow> WeatherApiResponse" where
  "sample_response n =
     \<lparr>api_id = Fin 2643743, api_name = n,
      api_sys = Some \<lparr>sys_country = Some ''GB'', sys_sunrise = Some (Fin 1700000000),
                      sys_sunset = Some (Fin 1700030000)\<rparr>,
      api_main = Some \<lparr>main_temp = Some (Fin 12), main_humidity = Some (Fin 40),
                       main_pressure = Some (Fin 1012)\<rparr>,
      api_wind = Some \<lparr>wind_speed = Some (Fin 3)\<rparr>,
      api_weather = [\<lparr>c_description = Some ''clear sky'', c_icon = Some ''01d''\<rparr>]\<rparr>"

text \<open>A network that answers every request, and one that is unreachable.\<close>

definition online :: "string \<Rightarrow> nat \<Rightarrow> int \<Rightarrow> fetch_env" where
  "online n k now = \<lparr>reply = (\<lambda>params. Inr (sample_response n)), arrival = k, clock = now\<rparr>"

definition offline :: "nat \<Rightarrow> int \<Rightarrow> fetch_env" where
  "offline k now =
     \<lparr>reply = (\<lambda>params. Inl (Thrown_object
                 \<lparr>e_response = None, e_request = Some (Obj []), e_message = Some ''Network Error''\<rparr>)),
      arrival = k, clock = now\<rparr>"

definition empty_store :: localStorage where
  "empty_store = \<lparr>slot = None, readable = True, writable = True\<rparr>"

definition city_form :: "string \<Rightarrow> form_state" where
  "city_form c = \<lparr>f_mode = City, f_city = c, f_zip = [], f_zipCountry = ''us'', f_lat = [], f_lon = []\<rparr>"

definition zip_form :: "string \<Rightarrow> string \<Rightarrow> form_state" where
  "zip_form z c = \<lparr>f_mode = Zip, f_city = [], f_zip = z, f_zipCountry = c, f_lat = [], f_lon = []\<rparr>"

definition coords_form :: "string \<Rightarrow> string \<Rightarrow> form_state" where
  "coords_form la lo = \<lparr>f_mode = Coords, f_city = [], f_zip = [], f_zipCountry = ''us'', f_lat = la, f_lon = lo\<rparr>"

definition city_query :: "string \<Rightarrow> form_query" where
  "city_query c = \<lparr>fq_mode = City, fq_city = Some c, fq_zip = None, fq_country = None,
                    fq_lat = None, fq_lon = None\<rparr>"

definition zip_query :: "string \<Rightarrow> string option \<Rightarrow> form_query" where
  "zip_query z c = \<lparr>fq_mode = Zip, fq_city = None, fq_zip = Some z, fq_country = c,
                     fq_lat = None, fq_lon = None\<rparr>"

definition sample_zip :: "string \<Rightarrow> string \<Rightarrow> int \<Rightarrow> SavedForecast" where
  "sample_zip z c now =
     \<lparr>sf_key = forecastKey Zip z, sf_mode = Zip, sf_value = z, sf_country = Some c,
      sf_lat = None, sf_lon = None, sf_weather = sample_weather ''New York'' 12 now\<rparr>"

definition sample_saved :: "SavedForecast list" where
  "sample_saved = [sample_zip ''10001'' ''us'' 2000, sample_city ''London'' 1000]"

definition sample_state :: "form_state \<Rightarrow> app_state" where
  "sample_state f = (initial_state empty_store)\<lparr>savedForecasts := sample_saved, form := f\<rparr>"

text \<open>More sample data: a collection of three entries, networks, thrown values, queries.\<close>

definition sample_coords :: "jsnum \<Rightarrow> jsnum \<Rightarrow> int \<Rightarrow> SavedForecast" where
  "sample_coords la lo now =
     \<lparr>sf_key = forecastKey Coords (show_num la @ '','' @ show_num lo), sf_mode = Coords,
      sf_value = show_num la @ '','' @ show_num lo, sf_country = None,
      sf_lat = Some la, sf_lon = Some lo, sf_weather = sample_weather ''Somewhere'' 12 now\<rparr>"

definition three_saved :: "SavedForecast list" where
  "three_saved = [sample_zip ''10001'' ''us'' 3000, sample_city ''London'' 2000,
                  sample_city ''Paris'' 1000]"

definition refresh_state :: app_state where
  "refresh_state = (initial_state empty_store)\<lparr>savedForecasts := three_saved\<rparr>"

definition all_online :: "nat \<Rightarrow> fetch_env" where
  "all_online i = online ''Somewhere'' (3 - i) (7000 + int i)"

definition one_offline :: "nat \<Rightarrow> fetch_env" where
  "one_offline i = (if i = 1 then offline 9 7005 else all_online i)"

definition network_error :: error_object where
  "network_error = \<lparr>e_response = None, e_request = Some (Obj []),
                     e_message = Some ''Network Error''\<rparr>"

definition api_error :: "rat \<Rightarrow> string option \<Rightarrow> error_object" where
  "api_error code msg =
     \<lparr>e_response = Some \<lparr>r_data = Some \<lparr>d_message = msg\<rparr>, r_status = Some (Fin code)\<rparr>,
      e_request = Some (Obj []), e_message = Some ''Request failed''\<rparr>"

definition coords_query :: "jsnum option \<Rightarrow> jsnum option \<Rightarrow> WeatherQuery" where
  "coords_query la lo = \<lparr>q_mode = Coords, q_city = None, q_zip = None, q_country = None,
                          q_lat = la, q_lon = lo, q_apiKey = API_KEY\<rparr>"

definition coords_params :: "string \<Rightarrow> jsnum option \<Rightarrow> jsnum option \<Rightarrow> request_params" where
  "coords_params k la lo = \<lparr>appid = k, units = ''metric'', p_q = None, p_zip = None,
                             p_lat = la, p_lon = lo\<rparr>"

section \<open>Auxiliary facts\<close>

subsection \<open>Strings\<close>

lemma str_includes_iff: "str_includes s t \<longleftrightarrow> (\<exists>ps ss. s = ps @ t @ ss)"
proof (induction s)
  case Nil
  then show ?case by simp
next
  case (Cons c s)
  have pre: "startsWith (c # s) t \<longleftrightarrow> (\<exists>ss. c # s = t @ ss)"
    unfolding startsWith_def
    by (metis append_eq_conv_conj)
  show ?case
  proof
    assume "str_includes (c # s) t"
    then consider "startsWith (c # s) t" | "str_includes s t" by auto
    then show "\<exists>ps ss. c # s = ps @ t @ ss"
    proof cases
      case 1
      then obtain ss where "c # s = t @ ss" using pre by blast
      then have "c # s = [] @ t @ ss" by simp
      then show ?thesis by blast
    next
      case 2
      then obtain ps ss where "s = ps @ t @ ss" using Cons.IH by blast
      then have "c # s = (c # ps) @ t @ ss" by simp
      then show ?thesis by blast
    qed
  next
    assume "\<exists>ps ss. c # s = ps @ t @ ss"
    then obtain ps ss where e: "c # s = ps @ t @ ss" by blast
    show "str_includes (c # s) t"
    proof (cases ps)
      case Nil
      then have "c # s = t @ ss" using e by simp
      then have "startsWith (c # s) t" using pre by blast
      then show ?thesis by (simp only: str_includes.simps simp_thms)
    next
      case (Cons p ps')
      then have "s = ps' @ t @ ss" using e by simp
      then have "str_includes s t" using Cons.IH by blast
      then show ?thesis by (simp only: str_includes.simps simp_thms)
    qed
  qed
qed

lemma toLowerCase_Nil: "toLowerCase s = [] \<longleftrightarrow> s = []"
  by (simp add: toLowerCase_def)

lemma str_includes_Nil: "str_includes [] t \<longleftrightarrow> t = []"
  by simp

lemma list_ex_nonempty_fields:
  assumes "t \<noteq> []"
  shows "list_ex (\<lambda>field. str_includes (toLowerCase field) t) (filter (\<lambda>field. field \<noteq> []) fs)
         \<longleftrightarrow> list_ex (\<lambda>field. str_includes (toLowerCase field) t) fs"
proof -
  have "\<not> str_includes (toLowerCase []) t" using assms by (simp add: toLowerCase_def)
  then show ?thesis by (induction fs) auto
qed

subsection \<open>Pagination\<close>

lemma relative_index_step: "relative_index n (s + 10) \<le> relative_index n s + 10"
  unfolding relative_index_def by (simp split: if_splits) linarith

lemma length_paged: "length (paged p flt) \<le> 10"
proof -
  have "relative_index (length flt) ((p - 1) * 10 + 10) \<le> relative_index (length flt) ((p - 1) * 10) + 10"
    by (rule relative_index_step)
  then show ?thesis
    by (simp add: paged_def slice_def Let_def PAGE_SIZE_def)
qed

lemma paged_take_drop:
  assumes "1 \<le> p"
  shows "paged p flt = take 10 (drop (10 * nat (p - 1)) flt)"
proof -
  define k where "k = 10 * nat (p - 1)"
  have s: "(p - 1) * int PAGE_SIZE = int k" using assms by (simp add: PAGE_SIZE_def k_def)
  have e: "int k + int PAGE_SIZE = int (k + 10)" by (simp add: PAGE_SIZE_def)
  have r: "relative_index n (int j) = min j n" for n j
    by (simp add: relative_index_def)
  have "paged p flt = take (min (k + 10) (length flt) - min k (length flt))
                        (drop (min k (length flt)) flt)"
    unfolding paged_def slice_def Let_def s e r ..
  also have "\<dots> = take 10 (drop k flt)"
  proof (cases "k \<le> length flt")
    case True
    then have m: "min k (length flt) = k" by simp
    have "take (min (k + 10) (length flt) - k) (drop k flt) = take 10 (drop k flt)"
      using True by (simp add: min_def)
    then show ?thesis unfolding m .
  next
    case False
    then show ?thesis by simp
  qed
  finally show ?thesis unfolding k_def .
qed

lemma concat_chunks:
  "concat (map (\<lambda>k. take n (drop (n * k) xs)) [0..<m]) = take (n * m) xs"
proof (induction m)
  case 0
  then show ?case by simp
next
  case (Suc m)
  have "take (n * m) xs @ take n (drop (n * m) xs) = take (n * m + n) xs"
    by (simp add: take_add)
  then show ?case using Suc by (simp add: add.commute)
qed

lemma upto_as_upt: "[1 .. int m] = map (\<lambda>k. int k + 1) [0..<m]"
proof (induction m)
  case 0
  then show ?case by simp
next
  case (Suc m)
  have "[1 .. int (Suc m)] = [1 .. int m] @ [int m + 1]"
    by (simp add: upto_rec2 add.commute)
  then show ?case using Suc by simp
qed

lemma totalPages_ceiling: "totalPages flt = max 1 \<lceil>(of_nat (length flt) :: rat) / 10\<rceil>"
proof -
  define c where "c = \<lceil>(of_nat (length flt) :: rat) / 10\<rceil>"
  have "totalPages flt = max 1 (if c = 0 then 1 else c)"
    by (simp add: totalPages_def PAGE_SIZE_def Let_def c_def)
  also have "\<dots> = max 1 c" by (simp add: max_def)
  finally show ?thesis unfolding c_def .
qed

lemma ceiling_tenth: "\<lceil>(of_nat n :: rat) / 10\<rceil> = int ((n + 9) div 10)"
proof -
  have "\<lceil>(of_int (int n) :: rat) / of_int 10\<rceil> = - (- int n div 10)"
    by (rule ceiling_divide_eq_div)
  moreover have "- (- int n div 10) = int ((n + 9) div 10)" by linarith
  ultimately show ?thesis by simp
qed

lemma totalPages_nat: "totalPages flt = max 1 (int ((length flt + 9) div 10))"
  by (simp add: totalPages_ceiling ceiling_tenth)

lemma concat_pages: "concat (pages flt) = flt"
proof -
  define m where "m = max 1 ((length flt + 9) div 10)"
  have tp: "totalPages flt = int m" unfolding m_def totalPages_nat by simp
  have big: "length flt \<le> 10 * m" unfolding m_def by linarith
  have "pages flt = map (\<lambda>k. paged (int k + 1) flt) [0..<m]"
    by (simp add: pages_def tp upto_as_upt comp_def)
  also have "\<dots> = map (\<lambda>k. take 10 (drop (10 * k) flt)) [0..<m]"
    by (simp add: paged_take_drop)
  finally have "concat (pages flt) = take (10 * m) flt"
    by (simp add: concat_chunks)
  then show ?thesis using big by simp
qed

subsection \<open>Insertion and replacement by key\<close>

lemma findIndex_ge: "- 1 \<le> findIndex P xs"
  by (induction xs) (auto simp: Let_def)

lemma findIndex_none: "findIndex P xs < 0 \<longleftrightarrow> (\<forall>x \<in> set xs. \<not> P x)"
  using findIndex_ge [of P] by (induction xs) (auto simp: Let_def)

lemma findIndex_first:
  "0 \<le> findIndex P xs \<Longrightarrow>
     nat (findIndex P xs) < length xs \<and> P (xs ! nat (findIndex P xs)) \<and>
     (\<forall>j < nat (findIndex P xs). \<not> P (xs ! j))"
proof (induction xs)
  case Nil
  then show ?case by simp
next
  case (Cons x xs)
  show ?case
  proof (cases "P x")
    case True
    then show ?thesis by simp
  next
    case False
    with Cons.prems have nn: "0 \<le> findIndex P xs"
      by (simp add: Let_def split: if_splits)
    then have fi: "findIndex P (x # xs) = findIndex P xs + 1"
      using False by (simp add: Let_def)
    have n: "nat (findIndex P xs + 1) = Suc (nat (findIndex P xs))"
      using nn by simp
    from Cons.IH [OF nn] show ?thesis
      unfolding fi n using False by (auto simp: nth_Cons split: nat.splits)
  qed
qed

lemma findIndex_unique:
  assumes "i < length xs" "P (xs ! i)" "\<forall>j < i. \<not> P (xs ! j)"
  shows "findIndex P xs = int i"
proof -
  have "\<not> (\<forall>x \<in> set xs. \<not> P x)" using assms(1,2) nth_mem by blast
  then have nn: "0 \<le> findIndex P xs" using findIndex_none [of P xs] by linarith
  let ?k = "nat (findIndex P xs)"
  from findIndex_first [OF nn]
  have k: "?k < length xs" "P (xs ! ?k)" "\<forall>j < ?k. \<not> P (xs ! j)" by blast+
  have "?k = i"
  proof (rule ccontr)
    assume "?k \<noteq> i"
    then consider "?k < i" | "i < ?k" by linarith
    then show False using assms k by cases blast+
  qed
  then show ?thesis using nn by simp
qed

lemma splice1_update: "i < length xs \<Longrightarrow> splice1 xs i item = xs[i := item]"
  by (simp add: splice1_def upd_conv_take_nth_drop)

lemma upsert_existing:
  assumes "i < length saved" "sf_key (saved ! i) = sf_key item"
    "\<forall>j < i. sf_key (saved ! j) \<noteq> sf_key item"
  shows "upsert item saved = saved[i := item]"
proof -
  have "findIndex (\<lambda>f. sf_key f = sf_key item) saved = int i"
    using assms by (intro findIndex_unique) auto
  then show ?thesis using assms(1) by (simp add: upsert_def splice1_update)
qed

lemma upsert_new:
  assumes "\<forall>f \<in> set saved. sf_key f \<noteq> sf_key item"
  shows "upsert item saved = item # saved"
proof -
  have "findIndex (\<lambda>f. sf_key f = sf_key item) saved < 0"
    using assms by (simp add: findIndex_none)
  then show ?thesis by (simp add: upsert_def)
qed

lemma upsert_cases:
  "(\<exists>i < length saved. sf_key (saved ! i) = sf_key item \<and>
        (\<forall>j < i. sf_key (saved ! j) \<noteq> sf_key item) \<and> upsert item saved = saved[i := item])
   \<or> ((\<forall>f \<in> set saved. sf_key f \<noteq> sf_key item) \<and> upsert item saved = item # saved)"
proof (cases "0 \<le> findIndex (\<lambda>f. sf_key f = sf_key item) saved")
  case True
  let ?i = "nat (findIndex (\<lambda>f. sf_key f = sf_key item) saved)"
  from findIndex_first [OF True]
  have "?i < length saved" "sf_key (saved ! ?i) = sf_key item"
    "\<forall>j < ?i. sf_key (saved ! j) \<noteq> sf_key item" by blast+
  moreover from this have "upsert item saved = saved[?i := item]" by (rule upsert_existing)
  ultimately show ?thesis by blast
next
  case False
  then have "\<forall>f \<in> set saved. sf_key f \<noteq> sf_key item"
    using findIndex_none [of "\<lambda>f. sf_key f = sf_key item" saved] by simp
  then show ?thesis using upsert_new by blast
qed

lemma upsert_keys:
  "map sf_key (upsert item saved) =
     (if sf_key item \<in> set (map sf_key saved) then map sf_key saved
      else sf_key item # map sf_key saved)"
proof -
  from upsert_cases [of saved item] show ?thesis
  proof (elim disjE exE conjE)
    fix i
    assume i: "i < length saved" "sf_key (saved ! i) = sf_key item"
      and u: "upsert item saved = saved[i := item]"
    have "map sf_key (saved[i := item]) = (map sf_key saved)[i := sf_key item]"
      by (simp add: map_update)
    also have "\<dots> = map sf_key saved"
      using i by (metis list_update_id nth_map)
    finally have "map sf_key (upsert item saved) = map sf_key saved" using u by simp
    moreover have "sf_key item \<in> set (map sf_key saved)"
      using i by (metis length_map nth_map nth_mem)
    ultimately show ?thesis by simp
  next
    assume "\<forall>f \<in> set saved. sf_key f \<noteq> sf_key item" "upsert item saved = item # saved"
    then show ?thesis by auto
  qed
qed

lemma upsert_distinct:
  "distinct (map sf_key saved) \<Longrightarrow> distinct (map sf_key (upsert item saved))"
  by (simp add: upsert_keys del: set_map)

lemma API_KEY_nonempty: "API_KEY \<noteq> []"
  by (simp add: API_KEY_def)

lemma saved_handleAdd:
  "savedForecasts (handleAdd ToString ToNumber env t_note st) =
     (case add_fetch ToNumber env (form st) of
        Inl e \<Rightarrow> savedForecasts st
      | Inr (query, weather) \<Rightarrow> upsert (new_item ToString query weather) (savedForecasts st))"
  by (simp add: handleAdd_def API_KEY_nonempty notify_def Let_def split: sum.splits prod.splits)

lemma saved_removeForecast:
  "savedForecasts (removeForecast k t_note st) = filter (\<lambda>f. sf_key f \<noteq> k) (savedForecasts st)"
  by (simp add: removeForecast_def notify_def Let_def)

lemma exec_distinct:
  assumes "distinct (map sf_key (savedForecasts st))"
  shows "distinct (map sf_key (savedForecasts (exec ToString ToNumber st c)))"
proof (cases c)
  case (Add f env t)
  then show ?thesis using assms
    by (simp add: saved_handleAdd upsert_distinct split: sum.splits prod.splits)
next
  case (Remove k t)
  then show ?thesis using assms by (simp add: saved_removeForecast distinct_map_filter)
qed

lemma run_distinct:
  "distinct (map sf_key (savedForecasts st)) \<Longrightarrow>
   distinct (map sf_key (savedForecasts (run ToString ToNumber st cmds)))"
  unfolding run_def
  by (induction cmds arbitrary: st) (simp_all add: exec_distinct)

lemma derived_key_zip:
  assumes "f_mode f = Zip" "buildQuery ToNumber f = Inr q"
  shows "derived_key ToString q = forecastKey Zip (trim (f_zip f))"
    and "fq_country q = (if trim (f_zipCountry f) = [] then None else Some (trim (f_zipCountry f)))"
  using assms
  by (auto simp: buildQuery_def derived_key_def truthy_str_def Let_def split: if_splits)

lemma add_fetch_query:
  "add_fetch ToNumber env f = Inr (q, w) \<Longrightarrow> buildQuery ToNumber f = Inr q"
  by (auto simp: add_fetch_def split: sum.splits)

lemma add_fetch_clock:
  "add_fetch ToNumber env f = Inr (query, weather) \<Longrightarrow> w_updatedAt weather = Fin (of_int (clock env))"
  by (auto simp: add_fetch_def mapWeather_def Let_def split: sum.splits)

subsection \<open>Joined promises and the refresh\<close>

lemma first_rejection_None:
  "first_rejection ps = None \<longleftrightarrow> (\<forall>p \<in> set ps. \<not> isl (snd p))"
proof (induction ps rule: first_rejection.induct)
  case 1
  then show ?case by simp
next
  case (2 t v ps)
  then show ?case by simp
next
  case (3 t e ps)
  then show ?case by (simp split: option.splits prod.splits)
qed

lemma first_rejection_Some:
  "first_rejection ps = Some (t, e) \<Longrightarrow> (t, Inl e) \<in> set ps"
proof (induction ps arbitrary: t e rule: first_rejection.induct)
  case 1
  then show ?case by simp
next
  case (2 t' v ps)
  then show ?case by simp
next
  case (3 t' e' ps)
  then show ?case by (auto split: option.splits prod.splits if_splits)
qed

lemma fulfilled_all:
  "\<forall>p \<in> set ps. \<not> isl (snd p) \<Longrightarrow> map Inr (fulfilled ps) = map snd ps"
proof (induction ps rule: fulfilled.induct)
  case 1
  then show ?case by simp
next
  case (2 t v ps)
  then show ?case by simp
next
  case (3 t e ps)
  then show ?case by simp
qed

lemma Promise_all_rejected:
  assumes "\<exists>p \<in> set ps. isl (snd p)"
  shows "\<exists>e. Inl e \<in> snd ` set ps \<and> Promise_all ps = Inl e"
proof -
  from assms have "first_rejection ps \<noteq> None" by (simp add: first_rejection_None)
  then obtain t e where f: "first_rejection ps = Some (t, e)" by auto
  then have "(t, Inl e) \<in> set ps" by (rule first_rejection_Some)
  then have "Inl e \<in> snd ` set ps" by force
  moreover have "Promise_all ps = Inl e" using f by (simp add: Promise_all_def)
  ultimately show ?thesis by blast
qed

lemma Promise_all_fulfilled:
  assumes "\<forall>p \<in> set ps. \<not> isl (snd p)"
  shows "Promise_all ps = Inr (fulfilled ps)" and "map Inr (fulfilled ps) = map snd ps"
proof -
  from assms have n: "first_rejection ps = None" by (simp only: first_rejection_None)
  show "Promise_all ps = Inr (fulfilled ps)" by (simp add: Promise_all_def n)
  show "map Inr (fulfilled ps) = map snd ps" by (rule fulfilled_all [OF assms])
qed

lemma snd_refresh_entry:
  "snd (refresh_entry env item) =
     map_sum id (\<lambda>raw. item\<lparr>sf_weather := mapWeather (clock env) raw\<rparr>) (fetch_outcome env item)"
  by (simp add: refresh_entry_def fetch_outcome_def fetchWeather_def split: sum.splits)

lemma snd_refresh_promises:
  "map snd (refresh_promises env saved) =
     map (\<lambda>(i, item). map_sum id (\<lambda>raw. item\<lparr>sf_weather := mapWeather (clock (env i)) raw\<rparr>)
                          (fetch_outcome (env i) item))
       (enumerate 0 saved)"
  by (simp add: refresh_promises_def snd_refresh_entry case_prod_unfold)

lemma isl_refresh_promises:
  "map (isl \<circ> snd) (refresh_promises env saved) = map isl (fetch_outcomes env saved)"
proof -
  have "map (isl \<circ> snd) (refresh_promises env saved) = map isl (map snd (refresh_promises env saved))"
    by simp
  also have "\<dots> = map isl (fetch_outcomes env saved)"
    unfolding snd_refresh_promises fetch_outcomes_def
    by (simp add: case_prod_unfold isl_map_sum)
  finally show ?thesis .
qed

lemma rejected_iff:
  "(\<exists>p \<in> set (refresh_promises env saved). isl (snd p)) \<longleftrightarrow>
   (\<exists>r \<in> set (fetch_outcomes env saved). isl r)"
proof -
  have "(\<exists>p \<in> set (refresh_promises env saved). isl (snd p)) \<longleftrightarrow>
        True \<in> set (map (isl \<circ> snd) (refresh_promises env saved))"
    by (auto simp: image_iff)
  also have "\<dots> \<longleftrightarrow> True \<in> set (map isl (fetch_outcomes env saved))"
    by (simp only: isl_refresh_promises)
  also have "\<dots> \<longleftrightarrow> (\<exists>r \<in> set (fetch_outcomes env saved). isl r)"
    by (auto simp: image_iff)
  finally show ?thesis .
qed

lemma rejection_is_outcome:
  assumes "Inl e \<in> snd ` set (refresh_promises env saved)"
  shows "Inl e \<in> set (fetch_outcomes env saved)"
proof -
  from assms have "Inl e \<in> set (map snd (refresh_promises env saved))" by simp
  then obtain i item where m: "(i, item) \<in> set (enumerate 0 saved)"
    and e: "Inl e = map_sum id (\<lambda>raw. item\<lparr>sf_weather := mapWeather (clock (env i)) raw\<rparr>)
                      (fetch_outcome (env i) item)"
    unfolding snd_refresh_promises by auto
  from e have "fetch_outcome (env i) item = Inl e"
    by (cases "fetch_outcome (env i) item") simp_all
  then show ?thesis using m unfolding fetch_outcomes_def by force
qed

lemma refreshAll_failure:
  assumes "\<exists>r \<in> set (fetch_outcomes env (savedForecasts st)). isl r"
  shows "\<exists>e. Inl e \<in> set (fetch_outcomes env (savedForecasts st)) \<and>
             refreshAll ToString showMessage env t_note st
               = notify Danger (parseError ToString e) t_note st"
proof -
  have ne: "savedForecasts st \<noteq> []"
    using assms by (auto simp: fetch_outcomes_def)
  from assms have "\<exists>p \<in> set (refresh_promises env (savedForecasts st)). isl (snd p)"
    by (simp only: rejected_iff)
  from Promise_all_rejected [OF this]
  obtain e where e: "Inl e \<in> snd ` set (refresh_promises env (savedForecasts st))"
    and p: "Promise_all (refresh_promises env (savedForecasts st)) = Inl e" by blast
  have "refreshAll ToString showMessage env t_note st = notify Danger (parseError ToString e) t_note st"
    using ne p by (simp add: refreshAll_def API_KEY_nonempty)
  with rejection_is_outcome [OF e] show ?thesis by blast
qed

lemma refreshAll_success:
  assumes "savedForecasts st \<noteq> []"
    and "\<forall>r \<in> set (fetch_outcomes env (savedForecasts st)). \<not> isl r"
  shows "\<exists>refreshed.
           map Inr refreshed =
             map (\<lambda>(i, item). map_sum id (\<lambda>raw. item\<lparr>sf_weather := mapWeather (clock (env i)) raw\<rparr>)
                                (fetch_outcome (env i) item))
               (enumerate 0 (savedForecasts st))
         \<and> refreshAll ToString showMessage env t_note st =
             (let st1 = st\<lparr>savedForecasts := refreshed,
                           storage := persistForecasts refreshed (storage st)\<rparr>
              in if showMessage then notify Success ''Forecasts refreshed.'' t_note st1 else st1)"
proof -
  let ?ps = "refresh_promises env (savedForecasts st)"
  from assms(2) have ok: "\<forall>p \<in> set ?ps. \<not> isl (snd p)"
    using rejected_iff [of env "savedForecasts st"] by blast
  have p: "Promise_all ?ps = Inr (fulfilled ?ps)" by (rule Promise_all_fulfilled(1) [OF ok])
  have m: "map Inr (fulfilled ?ps) = map snd ?ps" by (rule Promise_all_fulfilled(2) [OF ok])
  have "refreshAll ToString showMessage env t_note st =
             (let st1 = st\<lparr>savedForecasts := fulfilled ?ps,
                           storage := persistForecasts (fulfilled ?ps) (storage st)\<rparr>
              in if showMessage then notify Success ''Forecasts refreshed.'' t_note st1 else st1)"
    using assms(1) p by (simp add: refreshAll_def API_KEY_nonempty)
  with m show ?thesis unfolding snd_refresh_promises by blast
qed

lemma refreshed_entries:
  assumes "map Inr refreshed =
             map (\<lambda>(i, item). map_sum id (\<lambda>raw. item\<lparr>sf_weather := mapWeather (clock (env i)) raw\<rparr>)
                                (fetch_outcome (env i) item))
               (enumerate 0 saved)"
  shows "length refreshed = length saved"
    and "\<forall>i < length saved. \<exists>raw. fetch_outcome (env i) (saved ! i) = Inr raw \<and>
            refreshed ! i = (saved ! i)\<lparr>sf_weather := mapWeather (clock (env i)) raw\<rparr>"
proof -
  from arg_cong [OF assms, of length]
  show len: "length refreshed = length saved" by simp
  show "\<forall>i < length saved. \<exists>raw. fetch_outcome (env i) (saved ! i) = Inr raw \<and>
            refreshed ! i = (saved ! i)\<lparr>sf_weather := mapWeather (clock (env i)) raw\<rparr>"
  proof (intro allI impI)
    fix i assume i: "i < length saved"
    have a: "map Inr refreshed ! i = Inr (refreshed ! i)" using i len by simp
    have b: "map (\<lambda>(i, item). map_sum id (\<lambda>raw. item\<lparr>sf_weather := mapWeather (clock (env i)) raw\<rparr>)
                                (fetch_outcome (env i) item)) (enumerate 0 saved) ! i
        = map_sum id (\<lambda>raw. (saved ! i)\<lparr>sf_weather := mapWeather (clock (env i)) raw\<rparr>)
                                (fetch_outcome (env i) (saved ! i))"
      using i by (simp add: nth_enumerate_eq)
    have "map_sum id (\<lambda>raw. (saved ! i)\<lparr>sf_weather := mapWeather (clock (env i)) raw\<rparr>)
                                (fetch_outcome (env i) (saved ! i)) = map Inr refreshed ! i"
      unfolding assms by (rule b [symmetric])
    also have "\<dots> = Inr (refreshed ! i)" by (rule a)
    finally have "map_sum id (\<lambda>raw. (saved ! i)\<lparr>sf_weather := mapWeather (clock (env i)) raw\<rparr>)
                                (fetch_outcome (env i) (saved ! i)) = Inr (refreshed ! i)" .
    then show "\<exists>raw. fetch_outcome (env i) (saved ! i) = Inr raw \<and>
            refreshed ! i = (saved ! i)\<lparr>sf_weather := mapWeather (clock (env i)) raw\<rparr>"
      by (cases "fetch_outcome (env i) (saved ! i)") auto
  qed
qed

subsection \<open>Error classification\<close>

text \<open>
  A response whose status is absent, zero or not-a-number: the provider message is returned
  without a prefix, and without a provider message the status is reported as unknown. Where
  every response carries a status, \<open>parseError\<close> is the classification of the
  specification.
\<close>

lemma parseError_without_status:
  assumes "e_response a = Some r" and "\<not> truthy_status (r_status r)"
  shows "parseError ToString (Thrown_object a) =
           (if truthy_str (Option.bind (r_data r) d_message)
            then the (Option.bind (r_data r) d_message)
            else ''API error: Unknown error'')"
proof -
  from assms(2) have "r_status r \<noteq> Some (Fin 401)" "r_status r \<noteq> Some (Fin 404)"
    "r_status r \<noteq> Some (Fin 429)"
    by (auto simp: truthy_status_def)
  then show ?thesis using assms by (simp add: parseError_def Let_def)
qed

lemma parseError_refines_spec:
  assumes "\<forall>a r. error = Thrown_object a \<and> e_response a = Some r \<longrightarrow> truthy_status (r_status r)"
  shows "parseError ToString error = parseError_spec ToString error"
proof (cases error)
  case (Thrown_string s)
  then show ?thesis by (simp add: parseError_def parseError_spec_def)
next
  case (Thrown_object a)
  show ?thesis
  proof (cases "e_response a")
    case None
    then show ?thesis using Thrown_object
      by (simp add: parseError_def parseError_spec_def truthy_str_def truthy_status_def)
  next
    case (Some r)
    with assms Thrown_object have "truthy_status (r_status r)" by blast
    then obtain n where n: "r_status r = Some n" "truthy_num n"
      by (auto simp: truthy_status_def split: option.splits)
    show ?thesis using Thrown_object Some n
      by (simp add: parseError_def parseError_spec_def Let_def truthy_status_def template_num_def)
  qed
next
  case Thrown_other
  then show ?thesis by (simp add: parseError_def parseError_spec_def)
qed

subsection \<open>Persistence\<close>

lemma finite_numE: "finite_num n \<Longrightarrow> (\<And>r. n = Fin r \<Longrightarrow> P) \<Longrightarrow> P"
  by (cases n) simp_all

lemma weather_roundtrip:
  assumes "finite_weather w"
  shows "as_weather (json_image (weather_value w)) = Some w"
proof -
  obtain i n c d ic t h wi p sr ss u where w: "w = \<lparr>w_id = i, w_name = n, w_country = c, w_description = d, w_icon = ic,
           w_temperature = t, w_humidity = h, w_wind = wi, w_pressure = p,
           w_sunrise = sr, w_sunset = ss, w_updatedAt = u\<rparr>"
    by (cases w) auto
  from assms obtain i' t' h' wi' p' sr' ss' u' where
    f: "i = Fin i'" "t = Fin t'" "h = Fin h'" "wi = Fin wi'" "p = Fin p'" "sr = Fin sr'"
       "ss = Fin ss'" "u = Fin u'"
    unfolding w finite_weather_def by (auto elim!: finite_numE)
  show ?thesis
    unfolding w f
    by (simp add: weather_value_def json_image_def as_weather_def read_num_def read_str_def)
qed

lemma to_json_weather: "to_json (weather_value w) \<noteq> None"
  by (simp add: weather_value_def)

lemma forecast_roundtrip:
  assumes "finite_forecast f"
  shows "as_forecast (json_image (forecast_value f)) = Some f"
proof -
  obtain k m x c la lo w where f: "f = \<lparr>sf_key = k, sf_mode = m, sf_value = x, sf_country = c,
      sf_lat = la, sf_lon = lo, sf_weather = w\<rparr>"
    by (cases f) auto
  from assms have fw: "finite_weather w" and fla: "finite_opt la" and flo: "finite_opt lo"
    unfolding f finite_forecast_def by simp_all
  obtain jw where jw: "to_json (weather_value w) = Some jw"
    using to_json_weather [of w] by auto
  have rw: "as_weather (of_json jw) = Some w"
    using weather_roundtrip [OF fw] jw by (simp add: json_image_def)
  have rm: "read_mode (Str (mode_string m)) = Some m"
    by (cases m) (simp_all add: read_mode_def)
  have la: "la = None \<or> (\<exists>r. la = Some (Fin r))"
    using fla by (cases la) (auto simp: finite_opt_def elim: finite_numE)
  have lo: "lo = None \<or> (\<exists>r. lo = Some (Fin r))"
    using flo by (cases lo) (auto simp: finite_opt_def elim: finite_numE)
  have c: "c = None \<or> (\<exists>s. c = Some s)" by (cases c) auto
  from c la lo show ?thesis
    unfolding f
    by (elim disjE exE)
      (simp_all add: forecast_value_def json_image_def as_forecast_def jw rw rm opt_value_def
        read_optional_def read_str_def read_num_def)
qed

lemma to_json_forecast: "to_json (forecast_value f) \<noteq> None"
  by (simp add: forecast_value_def)

lemma of_json_elems_forecasts:
  "of_json_elems (to_json_elems (map forecast_value items))
     = map (\<lambda>f. json_image (forecast_value f)) items"
proof (induction items)
  case Nil
  then show ?case by simp
next
  case (Cons f items)
  obtain j where j: "to_json (forecast_value f) = Some j"
    using to_json_forecast [of f] by auto
  show ?case using Cons by (simp add: j json_image_def)
qed

lemma load_after_persist:
  assumes "healthy store"
  shows "loadSavedForecasts (persistForecasts items store)
           = map (\<lambda>f. json_image (forecast_value f)) items"
  using assms
  by (simp add: healthy_def loadSavedForecasts_def persistForecasts_def JSON_stringify_def
      nullish_or_def of_json_elems_forecasts)

subsection \<open>Examples\<close>

text \<open>
  The example scenario of the specification (add London, add the postal code 10001, remove
  London), and evaluations of the other operations on sample data.
\<close>

lemma example_scenario:
  "map sf_key (savedForecasts (run show_num read_number (initial_state empty_store)
     [Add (city_form ''London'') (online ''London'' 1 1000) 1001])) = [''city-london'']"
  "map sf_key (savedForecasts (run show_num read_number (initial_state empty_store)
     [Add (city_form ''London'') (online ''London'' 1 1000) 1001,
      Add (zip_form ''10001'' ''us'') (online ''New York'' 1 2000) 2001]))
   = [''zip-10001'', ''city-london'']"
  "map sf_key (savedForecasts (run show_num read_number (initial_state empty_store)
     [Add (city_form ''London'') (online ''London'' 1 1000) 1001,
      Add (zip_form ''10001'' ''us'') (online ''New York'' 1 2000) 2001,
      Remove ''city-london'' 3000]))
   = [''zip-10001'']"
  by code_simp+

lemma zip_example:
  "map (\<lambda>f. (sf_key f, sf_country f, w_name (sf_weather f)))
     (savedForecasts (run show_num read_number (initial_state empty_store)
         [Add (zip_form ''10001 '' ''us'') (online ''New York'' 1 1000) 1001,
          Add (zip_form ''10001'' ''ca'') (online ''Toronto'' 1 2000) 2001]))
   = [(''zip-10001'', Some ''ca'', ''Toronto'')]"
  by code_simp

lemma refresh_example:
  "map (\<lambda>n. (n_type n, n_text n))
     (notifications (refreshAll show_num True one_offline 8000 refresh_state))
   = [(Danger, ''Network error: Could not reach the server. Check your internet connection.'')]"
  "map (\<lambda>f. w_updatedAt (sf_weather f))
     (savedForecasts (refreshAll show_num True one_offline 8000 refresh_state))
   = [Fin 3000, Fin 2000, Fin 1000]"
  "map (\<lambda>f. w_updatedAt (sf_weather f))
     (savedForecasts (refreshAll show_num True all_online 8000 refresh_state))
   = [Fin 7000, Fin 7001, Fin 7002]"
  "map (\<lambda>n. (n_type n, n_text n))
     (notifications (refreshAll show_num True all_online 8000 refresh_state))
   = [(Success, ''Forecasts refreshed.'')]"
  by code_simp+

lemma parseError_examples:
  "parseError show_num (Thrown_object (api_error 404 (Some ''city not found''))) = ''[404] city not found''"
  "parseError show_num (Thrown_object (api_error 500 None)) = ''API error: 500''"
  "parseError show_num (Thrown_object (api_error 429 None)) = ''Too many requests. Please wait a moment.''"
  by code_simp+

lemma search_examples:
  "filtered show_num ''12'' three_saved = three_saved"
  "filtered show_num ''gb'' three_saved = three_saved"
  "filtered show_num ''Clear'' three_saved = three_saved"
  "filtered show_num ''paris'' three_saved = [sample_city ''Paris'' 1000]"
  "filtered show_num ''berlin'' three_saved = []"
  by code_simp+

lemma load_examples:
  "loadSavedForecasts \<lparr>slot = None, readable = True, writable = True\<rparr> = []"
  "loadSavedForecasts \<lparr>slot = Some (Other_text []), readable = True, writable = True\<rparr> = []"
  "loadSavedForecasts \<lparr>slot = Some (Other_text ''{oops''), readable = True, writable = True\<rparr> = []"
  "loadSavedForecasts \<lparr>slot = Some (Json_text (JObj [(''key'', JStr ''city-london'')])),
      readable = True, writable = True\<rparr> = []"
  "loadSavedForecasts \<lparr>slot = Some (Json_text (JArr [JNum 1])), readable = False, writable = True\<rparr> = []"
  "loadSavedForecasts \<lparr>slot = Some (Json_text (JArr [JNum 1])), readable = True, writable = True\<rparr>
     = [Num (Fin 1)]"
  by code_simp+

lemma pagination_examples:
  "totalPages ([] :: int list) = 1" "pages ([] :: int list) = [[]]"
  "totalPages [1 .. 10 :: int] = 1" "totalPages [1 .. 11 :: int] = 2"
  "pages [1 .. 12 :: int] = [[1, 2, 3, 4, 5, 6, 7, 8, 9, 10], [11, 12]]"
  by code_simp+

section \<open>Properties\<close>

text \<open>
  C1 (a refresh is all or nothing). Let \<open>st'\<close> be the state after \<open>refreshAll\<close>. If the
  fetch of at least one saved entry fails (by validation or by the network), the collection
  and the storage are those of the state before, and exactly one notification has been
  appended: a danger notification whose text classifies one of the failures. If the
  collection is not empty and every fetch succeeds, every entry carries the snapshot mapped
  from its own response, at its old position, the result is handed to \<open>persistForecasts\<close>,
  and the only notification is the success message when it was asked for. Hence the
  collection or the storage change only when every fetch has succeeded.
\<close>

theorem refresh_all_or_nothing:
  fixes ToString showMessage env t_note st
  defines "st' \<equiv> refreshAll ToString showMessage env t_note st"
  shows
    "((\<exists>r \<in> set (fetch_outcomes env (savedForecasts st)). isl r) \<longrightarrow>
        savedForecasts st' = savedForecasts st \<and> storage st' = storage st \<and>
        (\<exists>e. Inl e \<in> set (fetch_outcomes env (savedForecasts st)) \<and>
             notifications st' = notifications st @
               [\<lparr>n_id = t_note, n_type = Danger, n_text = parseError ToString e\<rparr>]))
     \<and> (savedForecasts st \<noteq> [] \<and> (\<forall>r \<in> set (fetch_outcomes env (savedForecasts st)). \<not> isl r) \<longrightarrow>
        length (savedForecasts st') = length (savedForecasts st) \<and>
        (\<forall>i < length (savedForecasts st). \<exists>raw.
            fetch_outcome (env i) (savedForecasts st ! i) = Inr raw \<and>
            savedForecasts st' ! i =
              (savedForecasts st ! i)\<lparr>sf_weather := mapWeather (clock (env i)) raw\<rparr>) \<and>
        storage st' = persistForecasts (savedForecasts st') (storage st) \<and>
        notifications st' =
          (if showMessage
           then notifications st @
                  [\<lparr>n_id = t_note, n_type = Success, n_text = ''Forecasts refreshed.''\<rparr>]
           else notifications st))
     \<and> (savedForecasts st' \<noteq> savedForecasts st \<or> storage st' \<noteq> storage st \<longrightarrow>
        (\<forall>r \<in> set (fetch_outcomes env (savedForecasts st)). \<not> isl r))"
proof -
  have fail: "savedForecasts st' = savedForecasts st \<and> storage st' = storage st \<and>
        (\<exists>e. Inl e \<in> set (fetch_outcomes env (savedForecasts st)) \<and>
             notifications st' = notifications st @
               [\<lparr>n_id = t_note, n_type = Danger, n_text = parseError ToString e\<rparr>])"
    if "\<exists>r \<in> set (fetch_outcomes env (savedForecasts st)). isl r"
  proof -
    from refreshAll_failure [OF that, of ToString showMessage t_note]
    obtain e where e: "Inl e \<in> set (fetch_outcomes env (savedForecasts st))"
      and r: "st' = notify Danger (parseError ToString e) t_note st"
      unfolding st'_def by blast
    have "savedForecasts st' = savedForecasts st" "storage st' = storage st"
      "notifications st' = notifications st @
               [\<lparr>n_id = t_note, n_type = Danger, n_text = parseError ToString e\<rparr>]"
      unfolding r by (simp_all add: notify_def)
    with e show ?thesis by blast
  qed
  have ok: "length (savedForecasts st') = length (savedForecasts st) \<and>
        (\<forall>i < length (savedForecasts st). \<exists>raw.
            fetch_outcome (env i) (savedForecasts st ! i) = Inr raw \<and>
            savedForecasts st' ! i =
              (savedForecasts st ! i)\<lparr>sf_weather := mapWeather (clock (env i)) raw\<rparr>) \<and>
        storage st' = persistForecasts (savedForecasts st') (storage st) \<and>
        notifications st' =
          (if showMessage
           then notifications st @
                  [\<lparr>n_id = t_note, n_type = Success, n_text = ''Forecasts refreshed.''\<rparr>]
           else notifications st)"
    if "savedForecasts st \<noteq> [] \<and> (\<forall>r \<in> set (fetch_outcomes env (savedForecasts st)). \<not> isl r)"
  proof -
    from that have ne: "savedForecasts st \<noteq> []"
      and all: "\<forall>r \<in> set (fetch_outcomes env (savedForecasts st)). \<not> isl r" by blast+
    from refreshAll_success [OF ne all, of ToString showMessage t_note]
    obtain refreshed where m: "map Inr refreshed =
             map (\<lambda>(i, item). map_sum id (\<lambda>raw. item\<lparr>sf_weather := mapWeather (clock (env i)) raw\<rparr>)
                                (fetch_outcome (env i) item))
               (enumerate 0 (savedForecasts st))"
      and r: "st' = (let st1 = st\<lparr>savedForecasts := refreshed,
                           storage := persistForecasts refreshed (storage st)\<rparr>
              in if showMessage then notify Success ''Forecasts refreshed.'' t_note st1 else st1)"
      unfolding st'_def by blast
    have s: "savedForecasts st' = refreshed"
      and p: "storage st' = persistForecasts refreshed (storage st)"
      and n: "notifications st' =
          (if showMessage
           then notifications st @
                  [\<lparr>n_id = t_note, n_type = Success, n_text = ''Forecasts refreshed.''\<rparr>]
           else notifications st)"
      unfolding r by (simp_all add: notify_def Let_def)
    from refreshed_entries [OF m] s p n show ?thesis by simp
  qed
  have only: "\<forall>r \<in> set (fetch_outcomes env (savedForecasts st)). \<not> isl r"
    if "savedForecasts st' \<noteq> savedForecasts st \<or> storage st' \<noteq> storage st"
    using that fail by blast
  from fail ok only show ?thesis by blast
qed

theorem refresh_all_or_nothing_witness:
  "list_ex isl (fetch_outcomes one_offline (savedForecasts refresh_state))
   \<and> savedForecasts (refreshAll show_num True one_offline 8000 refresh_state)
       = savedForecasts refresh_state
   \<and> storage (refreshAll show_num True one_offline 8000 refresh_state) = storage refresh_state
   \<and> length (notifications (refreshAll show_num True one_offline 8000 refresh_state))
       = Suc (length (notifications refresh_state))
   \<and> savedForecasts refresh_state \<noteq> []
   \<and> list_all (\<lambda>r. \<not> isl r) (fetch_outcomes all_online (savedForecasts refresh_state))
   \<and> length (savedForecasts (refreshAll show_num True all_online 8000 refresh_state))
       = length (savedForecasts refresh_state)
   \<and> storage (refreshAll show_num True all_online 8000 refresh_state)
       = persistForecasts (savedForecasts (refreshAll show_num True all_online 8000 refresh_state))
           (storage refresh_state)
   \<and> savedForecasts (refreshAll show_num True all_online 8000 refresh_state)
       \<noteq> savedForecasts refresh_state
   \<and> list_all (\<lambda>r. \<not> isl r) (fetch_outcomes all_online (savedForecasts refresh_state))"
proof -
  let ?bad = "refreshAll show_num True one_offline 8000 refresh_state"
  let ?good = "refreshAll show_num True all_online 8000 refresh_state"
  have h1: "list_ex isl (fetch_outcomes one_offline (savedForecasts refresh_state))"
    by code_simp
  then have h1': "\<exists>r \<in> set (fetch_outcomes one_offline (savedForecasts refresh_state)). isl r"
    by (simp only: list_ex_iff)
  have h2: "savedForecasts refresh_state \<noteq> []"
    by (simp add: refresh_state_def three_saved_def)
  have h3: "list_all (\<lambda>r. \<not> isl r) (fetch_outcomes all_online (savedForecasts refresh_state))"
    by code_simp
  then have h3': "\<forall>r \<in> set (fetch_outcomes all_online (savedForecasts refresh_state)). \<not> isl r"
    by (simp only: list_all_iff)
  note A = refresh_all_or_nothing [of one_offline refresh_state show_num True 8000]
  note B = refresh_all_or_nothing [of all_online refresh_state show_num True 8000]
  from A h1' have a1: "savedForecasts ?bad = savedForecasts refresh_state"
    and a2: "storage ?bad = storage refresh_state" by blast+
  from A h1' obtain e where "notifications ?bad = notifications refresh_state @
      [\<lparr>n_id = 8000, n_type = Danger, n_text = parseError show_num e\<rparr>]" by blast
  then have a3: "length (notifications ?bad) = Suc (length (notifications refresh_state))"
    by simp
  from B h2 h3' have b1: "length (savedForecasts ?good) = length (savedForecasts refresh_state)"
    and b2: "storage ?good = persistForecasts (savedForecasts ?good) (storage refresh_state)"
    by blast+
  have b3: "savedForecasts ?good \<noteq> savedForecasts refresh_state"
    by code_simp
  from B b3 have "\<forall>r \<in> set (fetch_outcomes all_online (savedForecasts refresh_state)). \<not> isl r"
    by blast
  then have c: "list_all (\<lambda>r. \<not> isl r) (fetch_outcomes all_online (savedForecasts refresh_state))"
    by (simp only: list_all_iff)
  show ?thesis by (intro conjI h1 a1 a2 a3 h2 h3 b1 b2 b3 c)
qed

text \<open>
  C2 (key uniqueness). Starting from a state whose collection is empty, after every sequence
  of add and remove commands, whatever the forms, the replies of the network and the clock
  readings are, the keys of the saved collection are pairwise distinct: there is at most
  one entry per derived key.
\<close>

theorem key_uniqueness:
  assumes "savedForecasts st = []"
  shows "distinct (map sf_key (savedForecasts (run ToString ToNumber st cmds)))"
  using assms by (intro run_distinct) simp

theorem key_uniqueness_witness:
  "savedForecasts (initial_state empty_store) = [] \<and>
   distinct (map sf_key (savedForecasts (run show_num read_number (initial_state empty_store)
     [Add (city_form '' London '') (online ''London'' 1 1000) 1001,
      Add (zip_form ''10001'' ''us'') (online ''New York'' 1 2000) 2001,
      Add (city_form ''LONDON'') (online ''London'' 1 3000) 3001,
      Remove ''zip-10001'' 4000])))"
proof -
  have h: "savedForecasts (initial_state empty_store) = []"
    by (simp add: initial_state_def)
  show ?thesis by (rule conjI [OF h key_uniqueness [OF h]])
qed

text \<open>
  C3 (position of an upsert). Let an add succeed, that is, the form passes \<open>buildQuery\<close>
  and the fetch returns a response. If the derived key is the key of an entry of the
  collection, the first such entry (the only one when keys are unique) is replaced at its
  index and nothing else changes; if no entry has the derived key, the new entry is put in
  front of the unchanged collection.
\<close>

theorem upsert_position:
  assumes "add_fetch ToNumber env (form st) = Inr (query, weather)"
  shows
    "(\<forall>i. i < length (savedForecasts st) \<and>
          sf_key (savedForecasts st ! i) = derived_key ToString query \<and>
          (\<forall>j < i. sf_key (savedForecasts st ! j) \<noteq> derived_key ToString query) \<longrightarrow>
          savedForecasts (handleAdd ToString ToNumber env t_note st) =
            (savedForecasts st)[i := new_item ToString query weather])
     \<and> ((\<forall>f \<in> set (savedForecasts st). sf_key f \<noteq> derived_key ToString query) \<longrightarrow>
          savedForecasts (handleAdd ToString ToNumber env t_note st) =
            new_item ToString query weather # savedForecasts st)
     \<and> ((\<exists>f \<in> set (savedForecasts st). sf_key f = derived_key ToString query) \<longrightarrow>
          (\<exists>i < length (savedForecasts st).
              sf_key (savedForecasts st ! i) = derived_key ToString query \<and>
              savedForecasts (handleAdd ToString ToNumber env t_note st) =
                (savedForecasts st)[i := new_item ToString query weather]))"
proof -
  let ?item = "new_item ToString query weather"
  have k: "sf_key ?item = derived_key ToString query" by (simp add: new_item_def)
  have s: "savedForecasts (handleAdd ToString ToNumber env t_note st) =
             upsert ?item (savedForecasts st)"
    using assms by (simp add: saved_handleAdd)
  have a: "\<forall>i. i < length (savedForecasts st) \<and>
          sf_key (savedForecasts st ! i) = derived_key ToString query \<and>
          (\<forall>j < i. sf_key (savedForecasts st ! j) \<noteq> derived_key ToString query) \<longrightarrow>
          savedForecasts (handleAdd ToString ToNumber env t_note st) =
            (savedForecasts st)[i := ?item]"
    unfolding s using upsert_existing [of _ "savedForecasts st" ?item] k by simp
  have b: "(\<forall>f \<in> set (savedForecasts st). sf_key f \<noteq> derived_key ToString query) \<longrightarrow>
          savedForecasts (handleAdd ToString ToNumber env t_note st) = ?item # savedForecasts st"
    unfolding s using upsert_new [of "savedForecasts st" ?item] k by simp
  have c: "(\<exists>f \<in> set (savedForecasts st). sf_key f = derived_key ToString query) \<longrightarrow>
          (\<exists>i < length (savedForecasts st).
              sf_key (savedForecasts st ! i) = derived_key ToString query \<and>
              savedForecasts (handleAdd ToString ToNumber env t_note st) =
                (savedForecasts st)[i := ?item])"
    unfolding s using upsert_cases [of "savedForecasts st" ?item] k by auto
  from a b c show ?thesis by blast
qed

theorem upsert_position_witness:
  "add_fetch read_number (online ''London'' 1 5000) (form (sample_state (city_form ''london'')))
     = Inr (city_query ''london'', mapWeather 5000 (sample_response ''London''))
   \<and> savedForecasts (handleAdd show_num read_number (online ''London'' 1 5000) 5001
         (sample_state (city_form ''london'')))
       = [sample_zip ''10001'' ''us'' 2000,
          new_item show_num (city_query ''london'') (mapWeather 5000 (sample_response ''London''))]
   \<and> add_fetch read_number (online ''Paris'' 1 5000) (form (sample_state (city_form ''Paris'')))
     = Inr (city_query ''Paris'', mapWeather 5000 (sample_response ''Paris''))
   \<and> savedForecasts (handleAdd show_num read_number (online ''Paris'' 1 5000) 5001
         (sample_state (city_form ''Paris'')))
       = [new_item show_num (city_query ''Paris'') (mapWeather 5000 (sample_response ''Paris'')),
          sample_zip ''10001'' ''us'' 2000, sample_city ''London'' 1000]"
proof -
  let ?stA = "sample_state (city_form ''london'')"
  let ?stB = "sample_state (city_form ''Paris'')"
  let ?qA = "city_query ''london''" and ?qB = "city_query ''Paris''"
  let ?wA = "mapWeather 5000 (sample_response ''London'')"
  let ?wB = "mapWeather 5000 (sample_response ''Paris'')"
  have hA: "add_fetch read_number (online ''London'' 1 5000) (form ?stA) = Inr (?qA, ?wA)"
    by code_simp
  have hB: "add_fetch read_number (online ''Paris'' 1 5000) (form ?stB) = Inr (?qB, ?wB)"
    by code_simp
  have sA: "savedForecasts ?stA = sample_saved" and sB: "savedForecasts ?stB = sample_saved"
    by (simp_all add: sample_state_def)
  have k0: "sf_key (sample_saved ! 0) \<noteq> derived_key show_num ?qA" by code_simp
  have k1: "sf_key (sample_saved ! 1) = derived_key show_num ?qA" by code_simp
  have pA: "1 < length (savedForecasts ?stA) \<and>
            sf_key (savedForecasts ?stA ! 1) = derived_key show_num ?qA \<and>
            (\<forall>j < 1. sf_key (savedForecasts ?stA ! j) \<noteq> derived_key show_num ?qA)"
    unfolding sA using k0 k1 by (simp add: sample_saved_def)
  have pB: "\<forall>f \<in> set (savedForecasts ?stB). sf_key f \<noteq> derived_key show_num ?qB"
    unfolding sB by code_simp
  from upsert_position [OF hA, of show_num 5001] pA
  have "savedForecasts (handleAdd show_num read_number (online ''London'' 1 5000) 5001 ?stA)
        = (savedForecasts ?stA)[1 := new_item show_num ?qA ?wA]"
    by blast
  then have cA: "savedForecasts (handleAdd show_num read_number (online ''London'' 1 5000) 5001 ?stA)
        = [sample_zip ''10001'' ''us'' 2000, new_item show_num ?qA ?wA]"
    unfolding sA by (simp add: sample_saved_def)
  from upsert_position [OF hB, of show_num 5001] pB
  have "savedForecasts (handleAdd show_num read_number (online ''Paris'' 1 5000) 5001 ?stB)
        = new_item show_num ?qB ?wB # savedForecasts ?stB"
    by blast
  then have cB: "savedForecasts (handleAdd show_num read_number (online ''Paris'' 1 5000) 5001 ?stB)
        = [new_item show_num ?qB ?wB, sample_zip ''10001'' ''us'' 2000, sample_city ''London'' 1000]"
    unfolding sB by (simp add: sample_saved_def)
  show ?thesis by (intro conjI hA cA hB cB)
qed

text \<open>
  C4 (validation of coordinates), as the code has it. For a query in coordinate mode,
  \<open>fetchWeather\<close> fails before any request exactly when the latitude or the longitude is
  undefined; otherwise the request is issued with the two values as \<open>lat\<close> and \<open>lon\<close>,
  whatever numbers they are. Not-a-number is rejected one step earlier, by \<open>buildQuery\<close>:
  an add in coordinate mode whose latitude or longitude input converts to not-a-number
  fails with a validation error and issues no request, and an add whose inputs convert to
  numbers issues the request with those numbers.
\<close>

theorem coords_validation:
  "(q_mode query = Coords \<longrightarrow>
      request_of query =
        (if q_lat query = None \<or> q_lon query = None
         then Inl (Error ''Latitude and longitude are required'')
         else Inr (coords_params (q_apiKey query) (q_lat query) (q_lon query)))
      \<and> fetchWeather net query =
        (if q_lat query = None \<or> q_lon query = None
         then Inl (Error ''Latitude and longitude are required'')
         else net (coords_params (q_apiKey query) (q_lat query) (q_lon query))))
   \<and> (f_mode f = Coords \<and> (isNaN (ToNumber (f_lat f)) \<or> isNaN (ToNumber (f_lon f))) \<longrightarrow>
      buildQuery ToNumber f = Inl (Error ''Enter valid coordinates.'')
      \<and> add_fetch ToNumber env f = Inl (Error ''Enter valid coordinates.''))
   \<and> (f_mode f = Coords \<and> \<not> isNaN (ToNumber (f_lat f)) \<and> \<not> isNaN (ToNumber (f_lon f)) \<longrightarrow>
      add_fetch ToNumber env f =
        map_sum id (\<lambda>raw. (\<lparr>fq_mode = Coords, fq_city = None, fq_zip = None, fq_country = None,
                              fq_lat = Some (ToNumber (f_lat f)), fq_lon = Some (ToNumber (f_lon f))\<rparr>,
                            mapWeather (clock env) raw))
          (reply env (coords_params API_KEY (Some (ToNumber (f_lat f))) (Some (ToNumber (f_lon f))))))"
proof -
  have a: "q_mode query = Coords \<longrightarrow>
      request_of query =
        (if q_lat query = None \<or> q_lon query = None
         then Inl (Error ''Latitude and longitude are required'')
         else Inr (coords_params (q_apiKey query) (q_lat query) (q_lon query)))"
    by (simp add: request_of_def coords_params_def Let_def)
  then have b: "q_mode query = Coords \<longrightarrow> fetchWeather net query =
        (if q_lat query = None \<or> q_lon query = None
         then Inl (Error ''Latitude and longitude are required'')
         else net (coords_params (q_apiKey query) (q_lat query) (q_lon query)))"
    by (simp add: fetchWeather_def)
  have c: "f_mode f = Coords \<and> (isNaN (ToNumber (f_lat f)) \<or> isNaN (ToNumber (f_lon f))) \<longrightarrow>
      buildQuery ToNumber f = Inl (Error ''Enter valid coordinates.'')
      \<and> add_fetch ToNumber env f = Inl (Error ''Enter valid coordinates.'')"
    by (auto simp: buildQuery_def add_fetch_def Let_def)
  have d: "f_mode f = Coords \<and> \<not> isNaN (ToNumber (f_lat f)) \<and> \<not> isNaN (ToNumber (f_lon f)) \<longrightarrow>
      add_fetch ToNumber env f =
        map_sum id (\<lambda>raw. (\<lparr>fq_mode = Coords, fq_city = None, fq_zip = None, fq_country = None,
                              fq_lat = Some (ToNumber (f_lat f)), fq_lon = Some (ToNumber (f_lon f))\<rparr>,
                            mapWeather (clock env) raw))
          (reply env (coords_params API_KEY (Some (ToNumber (f_lat f))) (Some (ToNumber (f_lon f)))))"
    by (auto simp: buildQuery_def add_fetch_def Let_def fetchWeather_def request_of_def
        with_apiKey_def coords_params_def split: sum.splits)
  from a b c d show ?thesis by blast
qed

theorem coords_validation_witness:
  "q_mode (coords_query None (Some (Fin 0))) = Coords
   \<and> request_of (coords_query None (Some (Fin 0))) = Inl (Error ''Latitude and longitude are required'')
   \<and> q_mode (coords_query (Some (Fin 51)) (Some (Fin 0))) = Coords
   \<and> fetchWeather (reply (online ''London'' 1 1000)) (coords_query (Some (Fin 51)) (Some (Fin 0)))
       = reply (online ''London'' 1 1000) (coords_params API_KEY (Some (Fin 51)) (Some (Fin 0)))
   \<and> f_mode (coords_form ''abc'' ''0'') = Coords
   \<and> isNaN (read_number (f_lat (coords_form ''abc'' ''0'')))
   \<and> add_fetch read_number (online ''London'' 1 1000) (coords_form ''abc'' ''0'')
       = Inl (Error ''Enter valid coordinates.'')"
proof -
  have m1: "q_mode (coords_query None (Some (Fin 0))) = Coords"
    and m2: "q_mode (coords_query (Some (Fin 51)) (Some (Fin 0))) = Coords"
    by (simp_all add: coords_query_def)
  have m3: "f_mode (coords_form ''abc'' ''0'') = Coords" by (simp add: coords_form_def)
  have n3: "isNaN (read_number (f_lat (coords_form ''abc'' ''0'')))" by code_simp
  from coords_validation [of "coords_query None (Some (Fin 0))"] m1
  have c1: "request_of (coords_query None (Some (Fin 0)))
      = Inl (Error ''Latitude and longitude are required'')"
    by (simp add: coords_query_def)
  from coords_validation [of "coords_query (Some (Fin 51)) (Some (Fin 0))"
      "reply (online ''London'' 1 1000)"] m2
  have c2: "fetchWeather (reply (online ''London'' 1 1000)) (coords_query (Some (Fin 51)) (Some (Fin 0)))
       = reply (online ''London'' 1 1000) (coords_params API_KEY (Some (Fin 51)) (Some (Fin 0)))"
    by (simp add: coords_query_def)
  from coords_validation [of _ _ "coords_form ''abc'' ''0''" read_number "online ''London'' 1 1000"]
    m3 n3
  have c3: "add_fetch read_number (online ''London'' 1 1000) (coords_form ''abc'' ''0'')
       = Inl (Error ''Enter valid coordinates.'')"
    by blast
  show ?thesis by (intro conjI m1 c1 m2 c2 m3 n3 c3)
qed

theorem coords_validation_counterexample:
  "request_of (coords_query (Some NaN) (Some (Fin 0)))
     = Inr (coords_params API_KEY (Some NaN) (Some (Fin 0)))
   \<and> fetchWeather (reply (online ''Null Island'' 1 1000)) (coords_query (Some NaN) (Some (Fin 0)))
     = Inr (sample_response ''Null Island'')"
  by code_simp

text \<open>
  C5 (precedence of the error classification), as the code has it. A string is returned
  as it is. For an object: a truthy request without a response gives the network message;
  a response with a provider message and a status gives the status in brackets followed by
  the message; a response with a status and no provider message gives the message for 401,
  404 or 429 and otherwise \<open>API error:\<close> with the status; without a response and without
  a request, a non-empty message field is returned, and the fallback otherwise. Any other
  value gives the fallback. Whenever a response is present the result does not depend on
  the message field of the value. A response without a status (absent, zero or
  not-a-number) gives the provider message alone, or \<open>API error: Unknown error\<close> when
  there is no provider message.
\<close>

theorem parseError_precedence:
  "parseError ToString (Thrown_string s) = s
   \<and> (truthy_unknown (e_request a) \<and> e_response a = None \<longrightarrow>
        parseError ToString (Thrown_object a) =
          ''Network error: Could not reach the server. Check your internet connection.'')
   \<and> (e_response a = Some r \<and> Option.bind (r_data r) d_message = Some m \<and> m \<noteq> [] \<and>
      r_status r = Some n \<and> truthy_num n \<longrightarrow>
        parseError ToString (Thrown_object a) = ''['' @ ToString n @ ''] '' @ m)
   \<and> (e_response a = Some r \<and> \<not> truthy_str (Option.bind (r_data r) d_message) \<and>
      r_status r = Some n \<and> truthy_num n \<longrightarrow>
        parseError ToString (Thrown_object a) =
          (if n = Fin 401 then ''Invalid API key. Please check your OpenWeatherMap API key.''
           else if n = Fin 404 then ''City not found. Please check the city name.''
           else if n = Fin 429 then ''Too many requests. Please wait a moment.''
           else ''API error: '' @ ToString n))
   \<and> (e_response a = None \<and> \<not> truthy_unknown (e_request a) \<and>
      e_message a = Some m \<and> m \<noteq> [] \<longrightarrow>
        parseError ToString (Thrown_object a) = m)
   \<and> (e_response a = None \<and> \<not> truthy_unknown (e_request a) \<and> \<not> truthy_str (e_message a) \<longrightarrow>
        parseError ToString (Thrown_object a) = ''Something went wrong. Please try again.'')
   \<and> parseError ToString Thrown_other = ''Something went wrong. Please try again.''
   \<and> (e_response a = Some r \<and> Option.bind (r_data r) d_message = Some m \<and> m \<noteq> [] \<and>
      \<not> truthy_status (r_status r) \<longrightarrow>
        parseError ToString (Thrown_object a) = m)
   \<and> (e_response a = Some r \<and> \<not> truthy_str (Option.bind (r_data r) d_message) \<and>
      \<not> truthy_status (r_status r) \<longrightarrow>
        parseError ToString (Thrown_object a) = ''API error: Unknown error'')"
proof -
  have 1: "parseError ToString (Thrown_string s) = s" by (simp add: parseError_def)
  have 2: "truthy_unknown (e_request a) \<and> e_response a = None \<longrightarrow>
        parseError ToString (Thrown_object a) =
          ''Network error: Could not reach the server. Check your internet connection.''"
    by (simp add: parseError_def)
  have 3: "e_response a = Some r \<and> Option.bind (r_data r) d_message = Some m \<and> m \<noteq> [] \<and>
      r_status r = Some n \<and> truthy_num n \<longrightarrow>
        parseError ToString (Thrown_object a) = ''['' @ ToString n @ ''] '' @ m"
    by (simp add: parseError_def truthy_str_def truthy_status_def Let_def)
  have 4: "e_response a = Some r \<and> \<not> truthy_str (Option.bind (r_data r) d_message) \<and>
      r_status r = Some n \<and> truthy_num n \<longrightarrow>
        parseError ToString (Thrown_object a) =
          (if n = Fin 401 then ''Invalid API key. Please check your OpenWeatherMap API key.''
           else if n = Fin 404 then ''City not found. Please check the city name.''
           else if n = Fin 429 then ''Too many requests. Please wait a moment.''
           else ''API error: '' @ ToString n)"
    by (simp add: parseError_def truthy_status_def Let_def)
  have 5: "e_response a = None \<and> \<not> truthy_unknown (e_request a) \<and>
      e_message a = Some m \<and> m \<noteq> [] \<longrightarrow> parseError ToString (Thrown_object a) = m"
    by (simp add: parseError_def truthy_str_def)
  have 6: "e_response a = None \<and> \<not> truthy_unknown (e_request a) \<and> \<not> truthy_str (e_message a) \<longrightarrow>
        parseError ToString (Thrown_object a) = ''Something went wrong. Please try again.''"
    by (simp add: parseError_def)
  have 7: "parseError ToString Thrown_other = ''Something went wrong. Please try again.''"
    by (simp add: parseError_def)
  have 8: "e_response a = Some r \<and> Option.bind (r_data r) d_message = Some m \<and> m \<noteq> [] \<and>
      \<not> truthy_status (r_status r) \<longrightarrow> parseError ToString (Thrown_object a) = m"
    using parseError_without_status [of a r ToString] by (simp add: truthy_str_def)
  have 9: "e_response a = Some r \<and> \<not> truthy_str (Option.bind (r_data r) d_message) \<and>
      \<not> truthy_status (r_status r) \<longrightarrow>
        parseError ToString (Thrown_object a) = ''API error: Unknown error''"
    using parseError_without_status [of a r ToString] by simp
  from 1 2 3 4 5 6 7 8 9 show ?thesis by (intro conjI)
qed

theorem parseError_precedence_witness:
  "parseError show_num (Thrown_object network_error) =
      ''Network error: Could not reach the server. Check your internet connection.''
   \<and> parseError show_num (Thrown_object (api_error 404 (Some ''city not found'')))
       = ''['' @ show_num (Fin 404) @ ''] '' @ ''city not found''
   \<and> parseError show_num (Thrown_object (api_error 401 None))
       = ''Invalid API key. Please check your OpenWeatherMap API key.''
   \<and> parseError show_num (Thrown_object (api_error 500 None)) = ''API error: '' @ show_num (Fin 500)
   \<and> parseError show_num (Error ''Enter a city name.'') = ''Enter a city name.''
   \<and> parseError show_num (Thrown_object \<lparr>e_response = None, e_request = None, e_message = None\<rparr>)
       = ''Something went wrong. Please try again.''
   \<and> parseError show_num (Thrown_object
        \<lparr>e_response = Some \<lparr>r_data = Some \<lparr>d_message = Some ''city not found''\<rparr>,
                             r_status = Some (Fin 0)\<rparr>,
         e_request = None, e_message = Some ''boom''\<rparr>) = ''city not found''
   \<and> parseError show_num (Thrown_object
        \<lparr>e_response = Some \<lparr>r_data = None, r_status = None\<rparr>,
         e_request = None, e_message = Some ''boom''\<rparr>) = ''API error: Unknown error''"
proof -
  let ?r = "\<lambda>code msg. \<lparr>r_data = Some \<lparr>d_message = msg\<rparr>, r_status = Some (Fin code)\<rparr>"
  have w2: "parseError show_num (Thrown_object network_error) =
      ''Network error: Could not reach the server. Check your internet connection.''"
    using parseError_precedence [of show_num _ network_error]
    by (simp add: network_error_def truthy_unknown_def)
  have w3: "parseError show_num (Thrown_object (api_error 404 (Some ''city not found'')))
       = ''['' @ show_num (Fin 404) @ ''] '' @ ''city not found''"
    using parseError_precedence [of show_num _ "api_error 404 (Some ''city not found'')"
        "?r 404 (Some ''city not found'')" "''city not found''" "Fin 404"]
    by (simp add: api_error_def)
  have w4: "parseError show_num (Thrown_object (api_error 401 None))
       = ''Invalid API key. Please check your OpenWeatherMap API key.''"
    using parseError_precedence [of show_num _ "api_error 401 None" "?r 401 None" _ "Fin 401"]
    by (simp add: api_error_def truthy_str_def)
  have w4': "parseError show_num (Thrown_object (api_error 500 None))
       = ''API error: '' @ show_num (Fin 500)"
    using parseError_precedence [of show_num _ "api_error 500 None" "?r 500 None" _ "Fin 500"]
    by (simp add: api_error_def truthy_str_def)
  have w5: "parseError show_num (Error ''Enter a city name.'') = ''Enter a city name.''"
    using parseError_precedence [of show_num _
        "\<lparr>e_response = None, e_request = None, e_message = Some ''Enter a city name.''\<rparr>"
        _ "''Enter a city name.''"]
    by (simp add: Error_def truthy_unknown_def)
  have w6: "parseError show_num (Thrown_object \<lparr>e_response = None, e_request = None, e_message = None\<rparr>)
       = ''Something went wrong. Please try again.''"
    using parseError_precedence [of show_num _
        "\<lparr>e_response = None, e_request = None, e_message = None\<rparr>"]
    by (simp add: truthy_unknown_def truthy_str_def)
  have w8: "parseError show_num (Thrown_object
        \<lparr>e_response = Some \<lparr>r_data = Some \<lparr>d_message = Some ''city not found''\<rparr>,
                             r_status = Some (Fin 0)\<rparr>,
         e_request = None, e_message = Some ''boom''\<rparr>) = ''city not found''"
    using parseError_precedence [of show_num _
        "\<lparr>e_response = Some \<lparr>r_data = Some \<lparr>d_message = Some ''city not found''\<rparr>,
                              r_status = Some (Fin 0)\<rparr>,
          e_request = None, e_message = Some ''boom''\<rparr>"
        "\<lparr>r_data = Some \<lparr>d_message = Some ''city not found''\<rparr>, r_status = Some (Fin 0)\<rparr>"
        "''city not found''"]
    by (simp add: truthy_status_def)
  have w9: "parseError show_num (Thrown_object
        \<lparr>e_response = Some \<lparr>r_data = None, r_status = None\<rparr>,
         e_request = None, e_message = Some ''boom''\<rparr>) = ''API error: Unknown error''"
    using parseError_precedence [of show_num _
        "\<lparr>e_response = Some \<lparr>r_data = None, r_status = None\<rparr>,
          e_request = None, e_message = Some ''boom''\<rparr>"
        "\<lparr>r_data = None, r_status = None\<rparr>"]
    by (simp add: truthy_status_def truthy_str_def)
  show ?thesis by (intro conjI w2 w3 w4 w4' w5 w6 w8 w9)
qed

theorem parseError_precedence_counterexample:
  "parseError show_num (Thrown_object
      \<lparr>e_response = Some \<lparr>r_data = Some \<lparr>d_message = Some ''city not found''\<rparr>, r_status = None\<rparr>,
       e_request = None, e_message = None\<rparr>) = ''city not found''
   \<and> parseError_spec show_num (Thrown_object
      \<lparr>e_response = Some \<lparr>r_data = Some \<lparr>d_message = Some ''city not found''\<rparr>, r_status = None\<rparr>,
       e_request = None, e_message = None\<rparr>) = ''[undefined] city not found''
   \<and> parseError show_num (Thrown_object
      \<lparr>e_response = Some \<lparr>r_data = None, r_status = None\<rparr>,
       e_request = None, e_message = Some ''boom''\<rparr>) = ''API error: Unknown error''
   \<and> parseError_spec show_num (Thrown_object
      \<lparr>e_response = Some \<lparr>r_data = None, r_status = None\<rparr>,
       e_request = None, e_message = Some ''boom''\<rparr>) = ''boom''"
  by code_simp

text \<open>
  C6 (search), as the code has it. The search trims the term before it compares: the
  result is the search of the specification for the trimmed term. So a term that is empty
  after trimming selects the whole collection in its order, and any other term selects, in
  the order of the collection, exactly the entries for which the lower-cased trimmed term
  occurs in the lower-cased name, country, description or rounded temperature.
\<close>

theorem search_semantics:
  "filtered ToString term_input saved = search_spec ToString (trim term_input) saved
   \<and> filtered ToString [] saved = saved"
proof -
  have a: "filtered ToString term_input saved = search_spec ToString (trim term_input) saved"
  proof (cases "trim term_input = []")
    case True
    then show ?thesis by (simp add: filtered_def search_spec_def toLowerCase_def)
  next
    case False
    then have ne: "toLowerCase (trim term_input) \<noteq> []" by (simp add: toLowerCase_Nil)
    show ?thesis
      using False ne
      by (simp add: filtered_def search_spec_def Let_def list_ex_nonempty_fields [OF ne])
  qed
  have "trim [] = []" by (simp add: trim_def)
  then have b: "filtered ToString [] saved = saved"
    by (simp add: filtered_def toLowerCase_def)
  from a b show ?thesis by blast
qed

theorem search_semantics_witness:
  "filtered show_num '' LON '' three_saved = search_spec show_num (trim '' LON '') three_saved
   \<and> search_spec show_num (trim '' LON '') three_saved = [sample_city ''London'' 2000]
   \<and> filtered show_num [] three_saved = three_saved"
proof -
  from search_semantics [of show_num "'' LON ''" three_saved]
  have a: "filtered show_num '' LON '' three_saved = search_spec show_num (trim '' LON '') three_saved"
    and c: "filtered show_num [] three_saved = three_saved" by blast+
  have b: "search_spec show_num (trim '' LON '') three_saved = [sample_city ''London'' 2000]"
    by code_simp
  show ?thesis by (intro conjI a b c)
qed

theorem search_semantics_counterexample:
  "filtered show_num '' lon '' [sample_city ''London'' 1000] = [sample_city ''London'' 1000]
   \<and> search_spec show_num '' lon '' [sample_city ''London'' 1000] = []
   \<and> filtered show_num ''  '' [sample_city ''London'' 1000] = [sample_city ''London'' 1000]
   \<and> search_spec show_num ''  '' [sample_city ''London'' 1000] = []"
  by code_simp

text \<open>
  C7 (pagination). For a filtered sequence of \<open>N\<close> items the number of pages is the
  maximum of 1 and the ceiling of \<open>N / 10\<close>; each page \<open>p\<close> between 1 and that number is
  the slice of at most ten items that starts at offset \<open>10 (p - 1)\<close>; the pages taken in
  order are as many as the page count and their concatenation is the filtered sequence,
  so they partition it without overlap or omission. When the filtered sequence has changed
  and the current page exceeds the number of pages, the watcher sets the current page to
  1; otherwise it changes nothing.
\<close>

theorem pagination_correct:
  "totalPages flt = max 1 \<lceil>(of_nat (length flt) :: rat) / 10\<rceil>
   \<and> (\<forall>p. 1 \<le> p \<and> p \<le> totalPages flt \<longrightarrow>
          paged p flt = take 10 (drop (10 * nat (p - 1)) flt) \<and> length (paged p flt) \<le> 10)
   \<and> length (pages flt) = nat (totalPages flt)
   \<and> concat (pages flt) = flt
   \<and> (currentPage st > totalPages (filtered ToString (searchTerm st) (savedForecasts st)) \<longrightarrow>
          watch_filtered ToString st = st\<lparr>currentPage := 1\<rparr>)
   \<and> (currentPage st \<le> totalPages (filtered ToString (searchTerm st) (savedForecasts st)) \<longrightarrow>
          watch_filtered ToString st = st)"
proof -
  have a: "totalPages flt = max 1 \<lceil>(of_nat (length flt) :: rat) / 10\<rceil>"
    by (rule totalPages_ceiling)
  have b: "\<forall>p. 1 \<le> p \<and> p \<le> totalPages flt \<longrightarrow>
          paged p flt = take 10 (drop (10 * nat (p - 1)) flt) \<and> length (paged p flt) \<le> 10"
    using paged_take_drop [of _ flt] length_paged [of _ flt] by blast
  have c: "length (pages flt) = nat (totalPages flt)"
    by (simp add: pages_def)
  have d: "concat (pages flt) = flt" by (rule concat_pages)
  have e: "currentPage st > totalPages (filtered ToString (searchTerm st) (savedForecasts st)) \<longrightarrow>
          watch_filtered ToString st = st\<lparr>currentPage := 1\<rparr>"
    by (simp add: watch_filtered_def)
  have f: "currentPage st \<le> totalPages (filtered ToString (searchTerm st) (savedForecasts st)) \<longrightarrow>
          watch_filtered ToString st = st"
    by (simp add: watch_filtered_def)
  from a b c d e f show ?thesis by (intro conjI)
qed

theorem pagination_correct_witness:
  "totalPages [1 .. 25 :: int] = max 1 \<lceil>(of_nat (length [1 .. 25 :: int]) :: rat) / 10\<rceil>
   \<and> totalPages [1 .. 25 :: int] = 3
   \<and> paged 3 [1 .. 25 :: int] = take 10 (drop (10 * nat (3 - 1)) [1 .. 25 :: int])
   \<and> paged 3 [1 .. 25 :: int] = [21, 22, 23, 24, 25]
   \<and> concat (pages [1 .. 25 :: int]) = [1 .. 25 :: int]
   \<and> currentPage (refresh_state\<lparr>currentPage := 4\<rparr>)
       > totalPages (filtered show_num (searchTerm (refresh_state\<lparr>currentPage := 4\<rparr>))
            (savedForecasts (refresh_state\<lparr>currentPage := 4\<rparr>)))
   \<and> watch_filtered show_num (refresh_state\<lparr>currentPage := 4\<rparr>)
       = refresh_state\<lparr>currentPage := 4\<rparr>\<lparr>currentPage := 1\<rparr>
   \<and> currentPage refresh_state
       \<le> totalPages (filtered show_num (searchTerm refresh_state) (savedForecasts refresh_state))
   \<and> watch_filtered show_num refresh_state = refresh_state"
proof -
  note T = pagination_correct [where flt = "[1 .. 25 :: int]"
      and st = "refresh_state\<lparr>currentPage := 4\<rparr>" and ToString = show_num]
  from T have a: "totalPages [1 .. 25 :: int]
      = max 1 \<lceil>(of_nat (length [1 .. 25 :: int]) :: rat) / 10\<rceil>" by blast
  have t: "totalPages [1 .. 25 :: int] = 3" by code_simp
  have "(1::int) \<le> 3 \<and> 3 \<le> totalPages [1 .. 25 :: int]" unfolding t by simp
  with T have b: "paged 3 [1 .. 25 :: int] = take 10 (drop (10 * nat (3 - 1)) [1 .. 25 :: int])"
    by blast
  have b': "paged 3 [1 .. 25 :: int] = [21, 22, 23, 24, 25]" by code_simp
  from T have c: "concat (pages [1 .. 25 :: int]) = [1 .. 25 :: int]" by blast
  have h: "currentPage (refresh_state\<lparr>currentPage := 4\<rparr>)
       > totalPages (filtered show_num (searchTerm (refresh_state\<lparr>currentPage := 4\<rparr>))
            (savedForecasts (refresh_state\<lparr>currentPage := 4\<rparr>)))"
    by code_simp
  with T have d: "watch_filtered show_num (refresh_state\<lparr>currentPage := 4\<rparr>)
       = refresh_state\<lparr>currentPage := 4\<rparr>\<lparr>currentPage := 1\<rparr>" by blast
  have h': "currentPage refresh_state
       \<le> totalPages (filtered show_num (searchTerm refresh_state) (savedForecasts refresh_state))"
    by code_simp
  with pagination_correct [where st = refresh_state and ToString = show_num]
  have d': "watch_filtered show_num refresh_state = refresh_state" by blast
  show ?thesis by (intro conjI a t b b' c h d h' d')
qed

text \<open>
  C8 (the time stamp of a replaced snapshot), as the code has it. When a successful add
  replaces the entry with the derived key, and when a successful refresh replaces the
  snapshot of an entry, the new \<open>updatedAt\<close> is the reading of the clock taken when the
  response was mapped. It is therefore strictly greater than the replaced one whenever
  that reading is strictly greater than the replaced time stamp; the code compares
  nothing.
\<close>

theorem updatedAt_is_clock_reading:
  "(add_fetch ToNumber env (form st) = Inr (query, weather) \<and>
    i < length (savedForecasts st) \<and>
    sf_key (savedForecasts st ! i) = derived_key ToString query \<and>
    (\<forall>j < i. sf_key (savedForecasts st ! j) \<noteq> derived_key ToString query) \<longrightarrow>
      w_updatedAt (sf_weather (savedForecasts (handleAdd ToString ToNumber env t_note st) ! i))
        = Fin (of_int (clock env))
      \<and> (num_less (w_updatedAt (sf_weather (savedForecasts st ! i))) (Fin (of_int (clock env))) \<longrightarrow>
           num_less (w_updatedAt (sf_weather (savedForecasts st ! i)))
             (w_updatedAt (sf_weather
                (savedForecasts (handleAdd ToString ToNumber env t_note st) ! i)))))
   \<and> (savedForecasts st \<noteq> [] \<and>
      (\<forall>r \<in> set (fetch_outcomes envs (savedForecasts st)). \<not> isl r) \<and>
      k < length (savedForecasts st) \<longrightarrow>
      w_updatedAt (sf_weather (savedForecasts (refreshAll ToString showMessage envs t_note st) ! k))
        = Fin (of_int (clock (envs k)))
      \<and> (num_less (w_updatedAt (sf_weather (savedForecasts st ! k))) (Fin (of_int (clock (envs k)))) \<longrightarrow>
           num_less (w_updatedAt (sf_weather (savedForecasts st ! k)))
             (w_updatedAt (sf_weather
                (savedForecasts (refreshAll ToString showMessage envs t_note st) ! k)))))"
proof -
  have add: "w_updatedAt (sf_weather (savedForecasts (handleAdd ToString ToNumber env t_note st) ! i))
        = Fin (of_int (clock env))"
    if h: "add_fetch ToNumber env (form st) = Inr (query, weather)"
      and i: "i < length (savedForecasts st)"
      and k: "sf_key (savedForecasts st ! i) = derived_key ToString query"
      and f: "\<forall>j < i. sf_key (savedForecasts st ! j) \<noteq> derived_key ToString query"
  proof -
    have key: "sf_key (new_item ToString query weather) = derived_key ToString query"
      by (simp add: new_item_def)
    have "savedForecasts (handleAdd ToString ToNumber env t_note st)
            = upsert (new_item ToString query weather) (savedForecasts st)"
      using h by (simp add: saved_handleAdd)
    also have "\<dots> = (savedForecasts st)[i := new_item ToString query weather]"
      using i k f by (intro upsert_existing) (simp_all add: key)
    finally have "savedForecasts (handleAdd ToString ToNumber env t_note st) ! i
                    = new_item ToString query weather"
      using i by simp
    then show ?thesis using add_fetch_clock [OF h] by (simp add: new_item_def)
  qed
  have refresh: "w_updatedAt (sf_weather (savedForecasts (refreshAll ToString showMessage envs t_note st) ! k))
        = Fin (of_int (clock (envs k)))"
    if ne: "savedForecasts st \<noteq> []"
      and ok: "\<forall>r \<in> set (fetch_outcomes envs (savedForecasts st)). \<not> isl r"
      and k: "k < length (savedForecasts st)"
  proof -
    from refreshAll_success [OF ne ok, of ToString showMessage t_note]
    obtain refreshed where m: "map Inr refreshed =
             map (\<lambda>(i, item). map_sum id (\<lambda>raw. item\<lparr>sf_weather := mapWeather (clock (envs i)) raw\<rparr>)
                                (fetch_outcome (envs i) item))
               (enumerate 0 (savedForecasts st))"
      and r: "refreshAll ToString showMessage envs t_note st =
             (let st1 = st\<lparr>savedForecasts := refreshed,
                           storage := persistForecasts refreshed (storage st)\<rparr>
              in if showMessage then notify Success ''Forecasts refreshed.'' t_note st1 else st1)"
      by blast
    have s: "savedForecasts (refreshAll ToString showMessage envs t_note st) = refreshed"
      unfolding r by (simp add: notify_def Let_def)
    from refreshed_entries(2) [OF m] k
    obtain raw where "refreshed ! k = (savedForecasts st ! k)\<lparr>sf_weather := mapWeather (clock (envs k)) raw\<rparr>"
      by blast
    then show ?thesis unfolding s by (simp add: mapWeather_def Let_def)
  qed
  from add refresh show ?thesis by simp
qed

theorem updatedAt_is_clock_reading_witness:
  "add_fetch read_number (online ''London'' 1 5000) (form (sample_state (city_form ''london'')))
     = Inr (city_query ''london'', mapWeather 5000 (sample_response ''London''))
   \<and> w_updatedAt (sf_weather (savedForecasts (handleAdd show_num read_number
        (online ''London'' 1 5000) 5001 (sample_state (city_form ''london''))) ! 1))
       = Fin (of_int (clock (online ''London'' 1 5000)))
   \<and> num_less (w_updatedAt (sf_weather (savedForecasts (sample_state (city_form ''london'')) ! 1)))
        (w_updatedAt (sf_weather (savedForecasts (handleAdd show_num read_number
        (online ''London'' 1 5000) 5001 (sample_state (city_form ''london''))) ! 1)))
   \<and> w_updatedAt (sf_weather (savedForecasts (refreshAll show_num False all_online 8000 refresh_state) ! 1))
       = Fin (of_int (clock (all_online 1)))
   \<and> num_less (w_updatedAt (sf_weather (savedForecasts refresh_state ! 1)))
        (w_updatedAt (sf_weather (savedForecasts
           (refreshAll show_num False all_online 8000 refresh_state) ! 1)))"
proof -
  let ?st = "sample_state (city_form ''london'')"
  let ?env = "online ''London'' 1 5000"
  let ?q = "city_query ''london''"
  let ?w = "mapWeather 5000 (sample_response ''London'')"
  have h: "add_fetch read_number ?env (form ?st) = Inr (?q, ?w)" by code_simp
  have s: "savedForecasts ?st = sample_saved" by (simp add: sample_state_def)
  have k0: "sf_key (sample_saved ! 0) \<noteq> derived_key show_num ?q" by code_simp
  have k1: "sf_key (sample_saved ! 1) = derived_key show_num ?q" by code_simp
  have p: "1 < length (savedForecasts ?st) \<and>
           sf_key (savedForecasts ?st ! 1) = derived_key show_num ?q \<and>
           (\<forall>j < 1. sf_key (savedForecasts ?st ! j) \<noteq> derived_key show_num ?q)"
    unfolding s using k0 k1 by (simp add: sample_saved_def)
  have old: "num_less (w_updatedAt (sf_weather (savedForecasts ?st ! 1))) (Fin (of_int (clock ?env)))"
    by code_simp
  note A = updatedAt_is_clock_reading [of read_number ?env ?st ?q ?w 1 show_num 5001]
  from A h p have a1: "w_updatedAt (sf_weather (savedForecasts (handleAdd show_num read_number
        ?env 5001 ?st) ! 1)) = Fin (of_int (clock ?env))" by blast
  from A h p old have a2: "num_less (w_updatedAt (sf_weather (savedForecasts ?st ! 1)))
        (w_updatedAt (sf_weather (savedForecasts (handleAdd show_num read_number ?env 5001 ?st) ! 1)))"
    by blast
  have r1: "savedForecasts refresh_state \<noteq> []"
    by (simp add: refresh_state_def three_saved_def)
  have "list_all (\<lambda>r. \<not> isl r) (fetch_outcomes all_online (savedForecasts refresh_state))"
    by code_simp
  then have r2: "\<forall>r \<in> set (fetch_outcomes all_online (savedForecasts refresh_state)). \<not> isl r"
    by (simp only: list_all_iff)
  have r3: "1 < length (savedForecasts refresh_state)"
    by (simp add: refresh_state_def three_saved_def)
  have old2: "num_less (w_updatedAt (sf_weather (savedForecasts refresh_state ! 1)))
                (Fin (of_int (clock (all_online 1))))"
    by code_simp
  note B = updatedAt_is_clock_reading [of _ _ refresh_state _ _ _ show_num 8000 all_online 1 False]
  from B r1 r2 r3 have b1: "w_updatedAt (sf_weather (savedForecasts
      (refreshAll show_num False all_online 8000 refresh_state) ! 1))
       = Fin (of_int (clock (all_online 1)))" by blast
  from B r1 r2 r3 old2 have b2: "num_less (w_updatedAt (sf_weather (savedForecasts refresh_state ! 1)))
        (w_updatedAt (sf_weather (savedForecasts
           (refreshAll show_num False all_online 8000 refresh_state) ! 1)))" by blast
  show ?thesis by (intro conjI h a1 a2 b1 b2)
qed

theorem updatedAt_strict_counterexample:
  "sf_key (savedForecasts (run show_num read_number (initial_state empty_store)
       [Add (city_form ''London'') (online ''London'' 1 5000) 5001]) ! 0) = ''city-london''
   \<and> w_updatedAt (sf_weather (savedForecasts (run show_num read_number (initial_state empty_store)
       [Add (city_form ''London'') (online ''London'' 1 5000) 5001]) ! 0)) = Fin 5000
   \<and> sf_key (savedForecasts (run show_num read_number (initial_state empty_store)
       [Add (city_form ''London'') (online ''London'' 1 5000) 5001,
        Add (city_form ''London'') (online ''London'' 1 5000) 5001]) ! 0) = ''city-london''
   \<and> w_updatedAt (sf_weather (savedForecasts (run show_num read_number (initial_state empty_store)
       [Add (city_form ''London'') (online ''London'' 1 5000) 5001,
        Add (city_form ''London'') (online ''London'' 1 5000) 5001]) ! 0)) = Fin 5000
   \<and> \<not> num_less
        (w_updatedAt (sf_weather (savedForecasts (run show_num read_number (initial_state empty_store)
           [Add (city_form ''London'') (online ''London'' 1 5000) 5001]) ! 0)))
        (w_updatedAt (sf_weather (savedForecasts (run show_num read_number (initial_state empty_store)
           [Add (city_form ''London'') (online ''London'' 1 5000) 5001,
            Add (city_form ''London'') (online ''London'' 1 5000) 5001]) ! 0)))
   \<and> w_updatedAt (sf_weather (savedForecasts (run show_num read_number (initial_state empty_store)
       [Add (city_form ''London'') (online ''London'' 1 5000) 5001,
        Add (city_form ''London'') (online ''London'' 1 4000) 4001]) ! 0)) = Fin 4000"
  by code_simp

text \<open>
  C9 (persistence round trip), for finite numbers. Let the storage be healthy (reading
  and writing succeed) and let every number of every item (the coordinates and the numeric
  fields of the snapshot) be finite. Then the items loaded after they were persisted, read
  field by field as saved forecasts, are the persisted items: the same keys, the same
  order, the same fields.
\<close>

theorem persistence_roundtrip:
  assumes "healthy store" and "list_all finite_forecast items"
  shows "map as_forecast (loadSavedForecasts (persistForecasts items store)) = map Some items"
proof -
  have "map as_forecast (loadSavedForecasts (persistForecasts items store))
          = map (\<lambda>f. as_forecast (json_image (forecast_value f))) items"
    by (simp add: load_after_persist [OF assms(1)] comp_def)
  also have "\<dots> = map Some items"
    using assms(2) by (induction items) (simp_all add: forecast_roundtrip)
  finally show ?thesis .
qed

theorem persistence_roundtrip_witness:
  "healthy empty_store
   \<and> list_all finite_forecast [sample_zip ''10001'' ''us'' 3000, sample_coords (Fin 51) (Fin 0) 1000]
   \<and> map as_forecast (loadSavedForecasts (persistForecasts
        [sample_zip ''10001'' ''us'' 3000, sample_coords (Fin 51) (Fin 0) 1000] empty_store))
       = map Some [sample_zip ''10001'' ''us'' 3000, sample_coords (Fin 51) (Fin 0) 1000]"
proof -
  have h1: "healthy empty_store" by (simp add: healthy_def empty_store_def)
  have h2: "list_all finite_forecast [sample_zip ''10001'' ''us'' 3000, sample_coords (Fin 51) (Fin 0) 1000]"
    by code_simp
  show ?thesis by (intro conjI h1 h2 persistence_roundtrip [OF h1 h2])
qed

theorem persistence_roundtrip_counterexample:
  "healthy empty_store
   \<and> get (hd (loadSavedForecasts (persistForecasts [sample_coords PosInf (Fin 0) 1000] empty_store)))
        ''lat'' = Null
   \<and> sf_lat (sample_coords PosInf (Fin 0) 1000) = Some PosInf
   \<and> map as_forecast (loadSavedForecasts (persistForecasts [sample_coords PosInf (Fin 0) 1000] empty_store))
        \<noteq> map Some [sample_coords PosInf (Fin 0) 1000]"
  by code_simp

text \<open>
  C10 (the key of a postal-code entry ignores the country). For two successful adds in
  postal-code mode with the same trimmed postal code, whatever the two country codes are,
  the derived keys are equal and consist of the mode and the trimmed postal code only; the
  second add, run after the first, replaces the entry of the first at its index, so the
  collection does not grow.
\<close>

theorem zip_key_ignores_country:
  assumes "f_mode f1 = Zip" and "f_mode f2 = Zip"
    and "trim (f_zip f1) = trim (f_zip f2)"
    and "add_fetch ToNumber env1 f1 = Inr (q1, w1)"
    and "add_fetch ToNumber env2 f2 = Inr (q2, w2)"
  shows "derived_key ToString q1 = forecastKey Zip (trim (f_zip f1))
     \<and> derived_key ToString q2 = derived_key ToString q1
     \<and> length (savedForecasts (run ToString ToNumber st [Add f1 env1 t1, Add f2 env2 t2]))
         = length (savedForecasts (run ToString ToNumber st [Add f1 env1 t1]))
     \<and> (\<exists>i < length (savedForecasts (run ToString ToNumber st [Add f1 env1 t1])).
           sf_key (savedForecasts (run ToString ToNumber st [Add f1 env1 t1]) ! i)
             = derived_key ToString q1
           \<and> savedForecasts (run ToString ToNumber st [Add f1 env1 t1, Add f2 env2 t2])
             = (savedForecasts (run ToString ToNumber st [Add f1 env1 t1]))
                 [i := new_item ToString q2 w2])"
proof -
  let ?st1 = "run ToString ToNumber st [Add f1 env1 t1]"
  let ?st2 = "run ToString ToNumber st [Add f1 env1 t1, Add f2 env2 t2]"
  let ?i1 = "new_item ToString q1 w1" and ?i2 = "new_item ToString q2 w2"
  have k1: "derived_key ToString q1 = forecastKey Zip (trim (f_zip f1))"
    using derived_key_zip(1) [OF assms(1) add_fetch_query [OF assms(4)]] .
  have k2: "derived_key ToString q2 = forecastKey Zip (trim (f_zip f2))"
    using derived_key_zip(1) [OF assms(2) add_fetch_query [OF assms(5)]] .
  have same: "derived_key ToString q2 = derived_key ToString q1"
    using k1 k2 assms(3) by simp
  have s1: "savedForecasts ?st1 = upsert ?i1 (savedForecasts st)"
    using assms(4) by (simp add: run_def saved_handleAdd)
  have st2: "?st2 = handleAdd ToString ToNumber env2 t2 (?st1\<lparr>form := f2\<rparr>)"
    by (simp add: run_def)
  have s2: "savedForecasts ?st2 = upsert ?i2 (savedForecasts ?st1)"
    unfolding st2 using assms(5) by (simp add: saved_handleAdd)
  have key2: "sf_key ?i2 = derived_key ToString q1" using same by (simp add: new_item_def)
  have "derived_key ToString q1 \<in> set (map sf_key (savedForecasts ?st1))"
    unfolding s1 upsert_keys by (simp add: new_item_def)
  then have ex: "\<not> (\<forall>f \<in> set (savedForecasts ?st1). sf_key f \<noteq> sf_key ?i2)"
    unfolding key2 by auto
  from upsert_cases [of "savedForecasts ?st1" ?i2] ex
  obtain i where i: "i < length (savedForecasts ?st1)"
      "sf_key (savedForecasts ?st1 ! i) = sf_key ?i2"
      "upsert ?i2 (savedForecasts ?st1) = (savedForecasts ?st1)[i := ?i2]"
    by blast
  have len: "length (savedForecasts ?st2) = length (savedForecasts ?st1)"
    unfolding s2 i(3) by simp
  have "\<exists>i < length (savedForecasts ?st1).
           sf_key (savedForecasts ?st1 ! i) = derived_key ToString q1
           \<and> savedForecasts ?st2 = (savedForecasts ?st1)[i := ?i2]"
    using i s2 key2 by auto
  with k1 same len show ?thesis by blast
qed

theorem zip_key_ignores_country_witness:
  "f_mode (zip_form ''10001 '' ''us'') = Zip \<and> f_mode (zip_form ''10001'' ''ca'') = Zip
   \<and> trim (f_zip (zip_form ''10001 '' ''us'')) = trim (f_zip (zip_form ''10001'' ''ca''))
   \<and> add_fetch read_number (online ''New York'' 1 1000) (zip_form ''10001 '' ''us'')
       = Inr (zip_query ''10001'' (Some ''us''), mapWeather 1000 (sample_response ''New York''))
   \<and> add_fetch read_number (online ''Toronto'' 1 2000) (zip_form ''10001'' ''ca'')
       = Inr (zip_query ''10001'' (Some ''ca''), mapWeather 2000 (sample_response ''Toronto''))
   \<and> derived_key show_num (zip_query ''10001'' (Some ''ca''))
       = derived_key show_num (zip_query ''10001'' (Some ''us''))
   \<and> length (savedForecasts (run show_num read_number (initial_state empty_store)
         [Add (zip_form ''10001 '' ''us'') (online ''New York'' 1 1000) 1001,
          Add (zip_form ''10001'' ''ca'') (online ''Toronto'' 1 2000) 2001]))
       = length (savedForecasts (run show_num read_number (initial_state empty_store)
         [Add (zip_form ''10001 '' ''us'') (online ''New York'' 1 1000) 1001]))"
proof -
  have m1: "f_mode (zip_form ''10001 '' ''us'') = Zip" and m2: "f_mode (zip_form ''10001'' ''ca'') = Zip"
    by (simp_all add: zip_form_def)
  have z: "trim (f_zip (zip_form ''10001 '' ''us'')) = trim (f_zip (zip_form ''10001'' ''ca''))"
    by code_simp
  have a1: "add_fetch read_number (online ''New York'' 1 1000) (zip_form ''10001 '' ''us'')
       = Inr (zip_query ''10001'' (Some ''us''), mapWeather 1000 (sample_response ''New York''))"
    by code_simp
  have a2: "add_fetch read_number (online ''Toronto'' 1 2000) (zip_form ''10001'' ''ca'')
       = Inr (zip_query ''10001'' (Some ''ca''), mapWeather 2000 (sample_response ''Toronto''))"
    by code_simp
  note T = zip_key_ignores_country [OF m1 m2 z a1 a2,
      of show_num "initial_state empty_store" 1001 2001]
  from T have c1: "derived_key show_num (zip_query ''10001'' (Some ''ca''))
       = derived_key show_num (zip_query ''10001'' (Some ''us''))" by blast
  from T have c2: "length (savedForecasts (run show_num read_number (initial_state empty_store)
         [Add (zip_form ''10001 '' ''us'') (online ''New York'' 1 1000) 1001,
          Add (zip_form ''10001'' ''ca'') (online ''Toronto'' 1 2000) 2001]))
       = length (savedForecasts (run show_num read_number (initial_state empty_store)
         [Add (zip_form ''10001 '' ''us'') (online ''New York'' 1 1000) 1001]))" by blast
  show ?thesis by (intro conjI m1 m2 z a1 a2 c1 c2)
qed

end
